theory Spec2Isabelle
  imports Main "HOL-Library.AList"
begin

section \<open>JavaScript values and objects\<close>

text \<open>
  The values the server passes around without looking inside them (loader data, bundle
  metadata, route modules, the load context) are JavaScript values. Objects are plain
  objects, as an object literal or \<open>JSON.parse\<close> makes them: their prototype is
  \<open>Object.prototype\<close>. An object is written as the list of its own string-keyed
  properties in the order the runtime enumerates them.
\<close>

datatype jsval =
    JUndefined
  | JNull
  | JBool bool
  | JNum int
  | JStr string
  | JArr "jsval list"
  | JObj "(string \<times> jsval) list"

type_synonym object = "(string \<times> jsval) list"

subsection \<open>Own properties\<close>

text \<open>
  \<open>getProp\<close> and \<open>setProp\<close> are \<open>obj[k]\<close> and \<open>obj[k] = v\<close> on the own properties of
  an object. That is what the runtime does for every key that is not the name of a member
  of \<open>Object.prototype\<close>; for those names (\<open>constructor\<close>, \<open>toString\<close>, \<open>__proto__\<close>
  and the others of \<open>objectPrototypeNames\<close> below) the runtime also looks at the
  prototype, which \<open>readMember\<close> and \<open>copyEntry\<close> below model.
\<close>

definition getProp :: "object \<Rightarrow> string \<Rightarrow> jsval" where
  "getProp obj k = (case map_of obj k of None \<Rightarrow> JUndefined | Some v \<Rightarrow> v)"

text \<open>
  The runtime enumerates the own keys that are array indices first, in ascending order, and
  then the other keys in the order of their creation. An array index is the canonical
  decimal text of a number below \<open>2^32 - 1\<close>.
\<close>

definition isDigit :: "char \<Rightarrow> bool" where
  "isDigit c = (c \<in> set ''0123456789'')"

definition decimalValue :: "string \<Rightarrow> nat" where
  "decimalValue k = foldl (\<lambda>n c. 10 * n + (of_char c - 48)) 0 k"

definition arrayIndex :: "string \<Rightarrow> nat option" where
  "arrayIndex k =
     (if k \<noteq> [] \<and> list_all isDigit k \<and> (k = ''0'' \<or> take 1 k \<noteq> ''0'')
         \<and> decimalValue k < 4294967295
      then Some (decimalValue k) else None)"

fun insertIndex :: "nat \<Rightarrow> string \<Rightarrow> jsval \<Rightarrow> object \<Rightarrow> object" where
  "insertIndex n k v [] = [(k, v)]"
| "insertIndex n k v (p # ps) =
     (case arrayIndex (fst p) of
        Some m \<Rightarrow> (if m < n then p # insertIndex n k v ps else (k, v) # p # ps)
      | None \<Rightarrow> (k, v) # p # ps)"

text \<open>
  \<open>obj[k] = v\<close>: overwrites the property where it stands, or creates it at the place
  where the runtime will enumerate it.
\<close>

definition setProp :: "object \<Rightarrow> string \<Rightarrow> jsval \<Rightarrow> object" where
  "setProp obj k v =
     (if k \<in> set (map fst obj) then AList.update k v obj
      else (case arrayIndex k of
              Some n \<Rightarrow> insertIndex n k v obj
            | None \<Rightarrow> obj @ [(k, v)]))"

subsection \<open>Members inherited from Object.prototype\<close>

text \<open>
  The string-keyed members of \<open>Object.prototype\<close>. All are functions that an assignment
  may shadow, except \<open>__proto__\<close>, which is an accessor: reading it gives the prototype
  of the object, and assigning to it calls a setter that changes the prototype and
  creates no property.
\<close>

definition objectPrototypeNames :: "string list" where
  "objectPrototypeNames =
     [''constructor'', ''__defineGetter__'', ''__defineSetter__'', ''hasOwnProperty'',
      ''__lookupGetter__'', ''__lookupSetter__'', ''isPrototypeOf'', ''propertyIsEnumerable'',
      ''toString'', ''valueOf'', ''__proto__'', ''toLocaleString'']"

text \<open>
  What reading a property of a plain object gives: a value of the model, or what
  \<open>Object.prototype\<close> gives under that name (\<open>Inherited ''constructor''\<close> is the function
  \<open>Object\<close>, \<open>Inherited ''__proto__''\<close> is \<open>Object.prototype\<close> itself).
\<close>

datatype member = Data jsval | Inherited string

text \<open>\<open>obj[k]\<close> on a plain object, own properties first.\<close>

definition readMember :: "object \<Rightarrow> string \<Rightarrow> member" where
  "readMember obj k =
     (case map_of obj k of
        Some v \<Rightarrow> Data v
      | None \<Rightarrow> (if k \<in> set objectPrototypeNames then Inherited k else Data JUndefined))"

subsection \<open>Numbers and JSON text\<close>

definition digitChar :: "nat \<Rightarrow> char" where
  "digitChar d = ''0123456789'' ! (d mod 10)"

text \<open>The decimal text of a non-negative integer, as a template literal prints it.\<close>

fun showNat :: "nat \<Rightarrow> string" where
  "showNat n = (if n < 10 then [digitChar n] else showNat (n div 10) @ [digitChar (n mod 10)])"

declare showNat.simps [simp del]

definition hexDigit :: "nat \<Rightarrow> char" where
  "hexDigit d = ''0123456789abcdef'' ! (d mod 16)"

text \<open>
  How \<open>JSON.stringify\<close> writes a character inside a string: the quote, the backslash
  and the control characters below U+0020 are escaped.
\<close>

definition escapeChar :: "char \<Rightarrow> string" where
  "escapeChar c =
     (if c = CHR 0x22 then [CHR 0x5C, CHR 0x22]
      else if c = CHR 0x5C then [CHR 0x5C, CHR 0x5C]
      else if c = CHR 0x08 then [CHR 0x5C, CHR ''b'']
      else if c = CHR 0x0C then [CHR 0x5C, CHR ''f'']
      else if c = CHR 0x0A then [CHR 0x5C, CHR ''n'']
      else if c = CHR 0x0D then [CHR 0x5C, CHR ''r'']
      else if c = CHR 0x09 then [CHR 0x5C, CHR ''t'']
      else if (of_char c :: nat) < 32
        then [CHR 0x5C, CHR ''u'', CHR ''0'', CHR ''0'',
              hexDigit (of_char c div 16), hexDigit (of_char c mod 16)]
      else [c])"

definition quoteString :: "string \<Rightarrow> string" where
  "quoteString s = [CHR 0x22] @ concat (map escapeChar s) @ [CHR 0x22]"

fun joinWith :: "string \<Rightarrow> string list \<Rightarrow> string" where
  "joinWith sep [] = []"
| "joinWith sep [x] = x"
| "joinWith sep (x # y # ys) = x @ sep @ joinWith sep (y # ys)"

text \<open>
  \<open>JSON.stringify\<close> of the runtime, on the values of the model: a property whose value
  is \<open>undefined\<close> is left out of an object, and \<open>undefined\<close> in an array prints as
  \<open>null\<close>. The handlers only serialise objects and arrays; \<open>undefined\<close> at top level
  (where the runtime returns no string at all) prints as \<open>null\<close> here.
\<close>

fun JSON_stringify :: "jsval \<Rightarrow> string"
  and stringifyElements :: "jsval list \<Rightarrow> string list"
  and stringifyProperties :: "(string \<times> jsval) list \<Rightarrow> string list" where
  "JSON_stringify JUndefined = ''null''"
| "JSON_stringify JNull = ''null''"
| "JSON_stringify (JBool b) = (if b then ''true'' else ''false'')"
| "JSON_stringify (JNum i) = (if i < 0 then ''-'' @ showNat (nat (- i)) else showNat (nat i))"
| "JSON_stringify (JStr s) = quoteString s"
| "JSON_stringify (JArr xs) = ''['' @ joinWith '','' (stringifyElements xs) @ '']''"
| "JSON_stringify (JObj ps) = ''{'' @ joinWith '','' (stringifyProperties ps) @ ''}''"
| "stringifyElements [] = []"
| "stringifyElements (x # xs) = JSON_stringify x # stringifyElements xs"
| "stringifyProperties [] = []"
| "stringifyProperties ((k, v) # ps) =
     (if v = JUndefined then stringifyProperties ps
      else (quoteString k @ '':'' @ JSON_stringify v) # stringifyProperties ps)"

section \<open>The Manifest Slicer\<close>

text \<open>
  \<open>getPartialManifest\<close> (server.ts, lines 332-340):
  \<^verbatim>\<open>
  return entryNames.reduce((memo, entryName) => {
    memo[entryName] = manifest[entryName];
    return memo;
  }, {} as BuildManifest);
  \<close>
  \<open>reduce\<close> is a left fold that starts from the empty object.
\<close>

type_synonym BuildManifest = object

subsection \<open>The slicer with the prototype of the objects\<close>

text \<open>
  The manifest is a plain object. The object the slicer builds starts as \<open>{}\<close>, with
  \<open>Object.prototype\<close> as its prototype, and the slicer itself may change that prototype:
  the entry name \<open>__proto__\<close> reaches the setter. So the result is its own properties,
  as a map from keys to what was stored (the order of enumeration is not part of it), and
  its prototype: \<open>Object.prototype\<close>, \<open>null\<close>, or an object or array of the manifest.
\<close>

datatype proto = ObjectPrototype | NullPrototype | DataPrototype jsval

record Memo =
  ownProperties :: "string \<rightharpoonup> member"
  prototype :: proto

text \<open>
  Whether an assignment to \<open>memo.__proto__\<close>, for a \<open>memo\<close> without such an own
  property, finds the accessor of \<open>Object.prototype\<close> along the prototype chain: not
  when the chain is empty, and not when the prototype is an object of the manifest that has
  an own property \<open>__proto__\<close> (as \<open>JSON.parse\<close> makes them), which is found first.
\<close>

definition setterInherited :: "proto \<Rightarrow> bool" where
  "setterInherited p =
     (case p of
        ObjectPrototype \<Rightarrow> True
      | NullPrototype \<Rightarrow> False
      | DataPrototype v \<Rightarrow> (case v of JObj ps \<Rightarrow> map_of ps ''__proto__'' = None | _ \<Rightarrow> True))"

text \<open>
  The statement \<open>memo[entryName] = manifest[entryName]\<close>. An own property of \<open>memo\<close> is
  overwritten. Otherwise the assignment creates the property, unless it reaches the setter
  of \<open>__proto__\<close>: the setter makes an object, an array or \<open>null\<close> the prototype of
  \<open>memo\<close>, ignores every other value, and creates no property. The value it is given is
  \<open>manifest.__proto__\<close>: the manifest's own property of that name, or else the manifest's
  prototype, \<open>Object.prototype\<close>.
\<close>

definition copyEntry :: "BuildManifest \<Rightarrow> Memo \<Rightarrow> string \<Rightarrow> Memo" where
  "copyEntry manifest memo entryName =
     (if ownProperties memo entryName = None \<and> entryName = ''__proto__''
         \<and> setterInherited (prototype memo)
      then (case map_of manifest ''__proto__'' of
              None \<Rightarrow> memo\<lparr> prototype := ObjectPrototype \<rparr>
            | Some v \<Rightarrow>
                (case v of
                   JObj ps \<Rightarrow> memo\<lparr> prototype := DataPrototype v \<rparr>
                 | JArr xs \<Rightarrow> memo\<lparr> prototype := DataPrototype v \<rparr>
                 | JNull \<Rightarrow> memo\<lparr> prototype := NullPrototype \<rparr>
                 | _ \<Rightarrow> memo))
      else memo\<lparr> ownProperties := (ownProperties memo)(entryName \<mapsto> readMember manifest entryName) \<rparr>)"

definition getPartialManifest_chain :: "BuildManifest \<Rightarrow> string list \<Rightarrow> Memo" where
  "getPartialManifest_chain manifest entryNames =
     foldl (copyEntry manifest) \<lparr> ownProperties = Map.empty, prototype = ObjectPrototype \<rparr> entryNames"

subsection \<open>The slicer on own properties\<close>

text \<open>
  The same fold on the own properties alone, as an object of the model. It gives the own
  properties of the slicer's result whenever no entry name is the name of a member of
  \<open>Object.prototype\<close> (lemma \<open>getPartialManifest_own_view\<close>); the handlers below use it
  for the manifest they pass on.
\<close>

definition getPartialManifest :: "BuildManifest \<Rightarrow> string list \<Rightarrow> BuildManifest" where
  "getPartialManifest manifest entryNames =
     foldl (\<lambda>memo entryName. setProp memo entryName (getProp manifest entryName)) [] entryNames"

subsection \<open>The slicer on a store of objects\<close>

text \<open>
  To say what the slicer does to the object it is given, objects live in a store and are
  passed by reference: an address is an index into the store. The slicer allocates the
  fresh object \<open>{}\<close> at the end of the store, then reads \<open>manifest[entryName]\<close> and
  writes \<open>memo[entryName]\<close> through their references, once per entry name. It returns
  the reference to \<open>memo\<close> and the store it leaves behind.
\<close>

type_synonym store = "object list"

definition sliceStep :: "nat \<Rightarrow> nat \<Rightarrow> store \<Rightarrow> string \<Rightarrow> store" where
  "sliceStep manifest memo h entryName =
     h[memo := setProp (h ! memo) entryName (getProp (h ! manifest) entryName)]"

definition getPartialManifest_store :: "store \<Rightarrow> nat \<Rightarrow> string list \<Rightarrow> nat \<times> store" where
  "getPartialManifest_store h manifest entryNames =
     (let memo = length h
      in (memo, foldl (sliceStep manifest memo) (h @ [[]]) entryNames))"

section \<open>The data model of the request pipeline\<close>

text \<open>
  server.ts takes its types from modules that are not part of the sources at hand
  (\<open>./platform\<close>, \<open>./config\<close>, \<open>./loader\<close>, \<open>./build\<close>, \<open>./entry\<close>,
  \<open>./match\<close>). The records below hold the fields server.ts reads and writes.
\<close>

record Location =
  pathname :: string
  search :: string
  hash :: string
  state :: jsval
  key :: string

text \<open>What \<open>parsePath\<close> returns: the pathname, search and hash that the URL has.\<close>

type_synonym PartialPath = "string option \<times> string option \<times> string option"

text \<open>A route definition; the field \<open>id\<close> of the source is \<open>id'\<close> here.\<close>

record RouteDefinition =
  path :: string
  id' :: string
  component :: string
  loader :: "string option"

datatype ConfigRoute = ConfigRoute RouteDefinition "ConfigRoute list"

text \<open>A match; its field \<open>pathname\<close> is \<open>match_pathname\<close> here.\<close>

record RouteMatch =
  match_pathname :: string
  params :: "(string \<times> string) list"
  route :: RouteDefinition

record RemixConfig =
  rootDirectory :: string
  serverBuildDirectory :: string
  publicPath :: string
  routes :: "ConfigRoute list"

text \<open>
  Modelled from the spec: the classes \<open>LoaderResult\<close>, \<open>LoaderResultRedirect\<close>,
  \<open>LoaderResultError\<close> and \<open>LoaderResultChangeStatusCode\<close> of \<open>./loader\<close> are missing
  from the sources. The spec's data model gives a closed variant with four cases:
  \<open>Success(data)\<close>, \<open>Redirect(location, httpStatus)\<close>, \<open>Error(error, httpStatus)\<close> and
  \<open>ChangeStatusCode(httpStatus)\<close>.
\<close>

datatype LoaderResult =
    LoaderResultSuccess jsval
  | LoaderResultRedirect string nat
  | LoaderResultError jsval nat
  | LoaderResultChangeStatusCode nat

record Request =
  url :: string

text \<open>
  The class \<open>Response\<close> of \<open>./platform\<close> is missing from the sources; server.ts only
  constructs responses. A response is what the handler passes to the constructor,
  \<open>new Response(body, {status, headers})\<close>: \<open>status\<close> is \<open>None\<close> and \<open>headers\<close> is
  empty where the handler passes none.
\<close>

record Response =
  body :: string
  status :: "nat option"
  headers :: "(string \<times> string) list"

text \<open>
  The entry context. \<open>partialEntryContext\<close> has the six fields of the first record;
  \<open>Object.assign\<close> adds the serialised string and the route loader. The fields
  \<open>browserManifest\<close> and \<open>publicPath\<close> carry the prefix \<open>ctx_\<close> here.
\<close>

record PartialEntryContext =
  ctx_browserManifest :: BuildManifest
  matchedRouteIds :: "string list"
  ctx_publicPath :: string
  routeManifest :: jsval
  routeData :: jsval
  routeParams :: jsval

record EntryContext = PartialEntryContext +
  browserEntryContextString :: string
  routeLoader_read :: "string \<Rightarrow> member"
  routeLoader_load :: "unit \<Rightarrow> string + jsval"

type_synonym ServerEntryModule = "Request \<Rightarrow> nat \<Rightarrow> EntryContext \<Rightarrow> Response"

type_synonym RouteModules = object

record RemixServerInit =
  config :: RemixConfig
  browserManifest :: BuildManifest
  routeModules :: RouteModules
  serverEntryModule :: ServerEntryModule

subsection \<open>Collaborators\<close>

text \<open>
  The functions server.ts imports are parameters of the model. The ones that read the disk
  or the module cache take the state \<open>'w\<close> of that outside world; \<open>purgeRequireCache\<close>
  changes it.
\<close>

record 'w Env =
  parsePath :: "string \<Rightarrow> PartialPath"
  URLSearchParams :: "string \<Rightarrow> (string \<times> string) list"
  matchRoutes :: "ConfigRoute list \<Rightarrow> string \<Rightarrow> RouteMatch list option"
  loadData :: "RemixConfig \<Rightarrow> RouteMatch list \<Rightarrow> Location \<Rightarrow> jsval \<Rightarrow> LoaderResult list"
  loadDataDiff ::
    "RemixConfig \<Rightarrow> RouteMatch list \<Rightarrow> RouteMatch list \<Rightarrow> Location \<Rightarrow> jsval \<Rightarrow> LoaderResult list"
  createRouteData :: "LoaderResult list \<Rightarrow> jsval"
  createRouteDataResults :: "LoaderResult list \<Rightarrow> jsval"
  createRouteManifest :: "RouteMatch list \<Rightarrow> jsval"
  createRouteParams :: "RouteMatch list \<Rightarrow> jsval"
  jsesc :: "PartialEntryContext \<Rightarrow> string"
  readConfig :: "'w \<Rightarrow> string option \<Rightarrow> RemixConfig"
  getBrowserManifest :: "'w \<Rightarrow> string \<Rightarrow> BuildManifest"
  getServerManifest :: "'w \<Rightarrow> string \<Rightarrow> BuildManifest"
  getServerEntryModule :: "'w \<Rightarrow> string \<Rightarrow> BuildManifest \<Rightarrow> ServerEntryModule"
  getRouteModules :: "'w \<Rightarrow> string \<Rightarrow> ConfigRoute list \<Rightarrow> BuildManifest \<Rightarrow> RouteModules"
  purgeRequireCache :: "string \<Rightarrow> 'w \<Rightarrow> 'w"

subsection \<open>What a handler does, beside its response\<close>

text \<open>
  Each handler returns its response together with the calls it made, in order: which
  promise it awaited, what it purged, which paths it matched, which load strategy it ran,
  which manifest slice it took and what it handed to the render hook.
\<close>

datatype Event =
    AwaitInit nat
  | PurgeRequireCache string
  | InitializeServer "string option" nat
  | MatchRoutes string
  | LoadData "RouteMatch list" Location
  | LoadDataDiff "RouteMatch list" "RouteMatch list" Location
  | GetPartialManifest "string list"
  | Render nat EntryContext

section \<open>The handlers\<close>

subsection \<open>Small pieces of the runtime\<close>

definition startsWith :: "string \<Rightarrow> string \<Rightarrow> bool" where
  "startsWith s p = (take (length p) s = p)"

text \<open>\<open>params.get(name)\<close>: the first value of that name, \<open>null\<close> when there is none.\<close>

definition searchParam :: "(string \<times> string) list \<Rightarrow> string \<Rightarrow> string option" where
  "searchParam ps name = map_of ps name"

text \<open>
  The test \<open>if (v)\<close> on a value of type \<open>string | null\<close>: \<open>null\<close> and the empty
  string are falsy. The result is the string when it is truthy.
\<close>

definition truthy :: "string option \<Rightarrow> string option" where
  "truthy v = (case v of None \<Rightarrow> None | Some s \<Rightarrow> (if s = [] then None else Some s))"

text \<open>
  \<open>loaderResults.find(result => result instanceof LoaderResultRedirect)\<close> and its two
  siblings: the first result of that class, with its fields.
\<close>

fun findRedirect :: "LoaderResult list \<Rightarrow> (string \<times> nat) option" where
  "findRedirect [] = None"
| "findRedirect (LoaderResultRedirect location httpStatus # rs) = Some (location, httpStatus)"
| "findRedirect (_ # rs) = findRedirect rs"

fun findError :: "LoaderResult list \<Rightarrow> (jsval \<times> nat) option" where
  "findError [] = None"
| "findError (LoaderResultError err httpStatus # rs) = Some (err, httpStatus)"
| "findError (_ # rs) = findError rs"

fun findChangeStatusCode :: "LoaderResult list \<Rightarrow> nat option" where
  "findChangeStatusCode [] = None"
| "findChangeStatusCode (LoaderResultChangeStatusCode httpStatus # rs) = Some httpStatus"
| "findChangeStatusCode (_ # rs) = findChangeStatusCode rs"

subsection \<open>createLocation (lines 39-46)\<close>

definition createLocation ::
  "(string \<Rightarrow> PartialPath) \<Rightarrow> string \<Rightarrow> jsval option \<Rightarrow> string option \<Rightarrow> Location" where
  "createLocation parse u st k =
     (case parse u of
        (p, s, h) \<Rightarrow>
          \<lparr> pathname = (case p of None \<Rightarrow> ''/'' | Some x \<Rightarrow> x),
            search = (case s of None \<Rightarrow> [] | Some x \<Rightarrow> x),
            hash = (case h of None \<Rightarrow> [] | Some x \<Rightarrow> x),
            state = (case st of None \<Rightarrow> JNull | Some x \<Rightarrow> x),
            key = (case k of None \<Rightarrow> ''default'' | Some x \<Rightarrow> x) \<rparr>)"

subsection \<open>initializeServer (lines 86-102)\<close>

definition initializeServer :: "'w Env \<Rightarrow> 'w \<Rightarrow> string option \<Rightarrow> RemixServerInit" where
  "initializeServer E w remixRoot =
     (let cfg = readConfig E w remixRoot;
          browserMf = getBrowserManifest E w (serverBuildDirectory cfg);
          serverMf = getServerManifest E w (serverBuildDirectory cfg);
          entryModule = getServerEntryModule E w (serverBuildDirectory cfg) serverMf;
          modules = getRouteModules E w (serverBuildDirectory cfg) (routes cfg) serverMf
      in \<lparr> config = cfg, browserManifest = browserMf, routeModules = modules,
           serverEntryModule = entryModule \<rparr>)"

subsection \<open>handleDataRequest (lines 104-160)\<close>

definition missingPath :: Response where
  "missingPath =
     \<lparr> body = JSON_stringify (JObj [(''error'', JStr ''Missing ?path'')]),
       status = Some 403,
       headers = [(''Content-Type'', ''application/json'')] \<rparr>"

definition handleDataRequest ::
  "'w Env \<Rightarrow> RemixServerInit \<Rightarrow> Request \<Rightarrow> jsval \<Rightarrow> Response \<times> Event list" where
  "handleDataRequest E init req context =
     (let cfg = config init;
          location = createLocation (parsePath E) (url req) None None;
          ps = URLSearchParams E (search location);
          path = searchParam ps ''path'';
          from = searchParam ps ''from''
      in case truthy path of
           None \<Rightarrow> (missingPath, [])
         | Some p \<Rightarrow>
             (case matchRoutes E (routes cfg) p of
                None \<Rightarrow>
                  (\<lparr> body = JSON_stringify (JObj [(''error'', JStr ''No routes matched'')]),
                     status = Some 404,
                     headers = [(''Content-Type'', ''application/json'')] \<rparr>,
                   [MatchRoutes p])
              | Some matches \<Rightarrow>
                  (let (loaderResults, loaded) =
                         (case truthy from of
                            Some f \<Rightarrow>
                              (let fromMatches =
                                     (case matchRoutes E (routes cfg) f of
                                        None \<Rightarrow> [] | Some ms \<Rightarrow> ms)
                               in (loadDataDiff E cfg matches fromMatches location context,
                                   [MatchRoutes f, LoadDataDiff matches fromMatches location]))
                          | None \<Rightarrow>
                              (loadData E cfg matches location context,
                               [LoadData matches location]));
                       dataResults = createRouteDataResults E loaderResults
                   in (\<lparr> body = JSON_stringify dataResults,
                          status = None,
                          headers = [(''Content-Type'', ''application/json'')] \<rparr>,
                       MatchRoutes p # loaded))))"

subsection \<open>handlePatchRequest (lines 162-205)\<close>

definition handlePatchRequest ::
  "'w Env \<Rightarrow> RemixServerInit \<Rightarrow> Request \<Rightarrow> Response \<times> Event list" where
  "handlePatchRequest E init req =
     (let cfg = config init;
          location = createLocation (parsePath E) (url req) None None;
          ps = URLSearchParams E (search location);
          path = searchParam ps ''path''
      in case truthy path of
           None \<Rightarrow> (missingPath, [])
         | Some p \<Rightarrow>
             (case matchRoutes E (routes cfg) p of
                None \<Rightarrow>
                  (\<lparr> body = ''No matches found for '' @ p, status = Some 404, headers = [] \<rparr>,
                   [MatchRoutes p])
              | Some matches \<Rightarrow>
                  (let ids = map (\<lambda>m. id' (route m)) matches;
                       routeMf = createRouteManifest E matches;
                       partialBrowserManifest = getPartialManifest (browserManifest init) ids;
                       payload = JObj [(''build'', JObj partialBrowserManifest),
                                       (''routes'', routeMf)]
                   in (\<lparr> body = JSON_stringify payload,
                          status = None,
                          headers = [(''Content-Type'', ''application/json'')] \<rparr>,
                       [MatchRoutes p, GetPartialManifest ids]))))"

subsection \<open>handleHtmlRequest (lines 207-330)\<close>

text \<open>The synthetic match of lines 221-232, 257-268 and 277-288, for a route id.\<close>

definition syntheticMatch :: "Location \<Rightarrow> string \<Rightarrow> RouteMatch" where
  "syntheticMatch location routeId =
     \<lparr> match_pathname = pathname location,
       params = [],
       route = \<lparr> path = ''*'', id' = routeId, component = routeId @ ''.js'', loader = None \<rparr> \<rparr>"

definition cannotLoad :: string where
  "cannotLoad = ''Cannot load routes on the server because we can'' @ [CHR 0x27] @ ''t suspend''"

text \<open>
  Lines 293-329, where every branch of the handler that does not return a redirect ends:
  the entry context is built from the status code, the match list and the loader results
  that the branch left, and handed to the render hook.
\<close>

definition renderEntry ::
  "'w Env \<Rightarrow> RemixServerInit \<Rightarrow> Request \<Rightarrow> nat \<Rightarrow> RouteMatch list \<Rightarrow> LoaderResult list
     \<Rightarrow> Response \<times> Event list" where
  "renderEntry E init req statusCode matches loaderResults =
     (let ids = map (\<lambda>m. id' (route m)) matches;
          entryNames = [''__entry_browser__''] @ ids;
          partialEntryContext =
            \<lparr> ctx_browserManifest = getPartialManifest (browserManifest init) entryNames,
              matchedRouteIds = ids,
              ctx_publicPath = publicPath (config init),
              routeManifest = createRouteManifest E matches,
              routeData = createRouteData E loaderResults,
              routeParams = createRouteParams E matches \<rparr>;
          entryContext =
            PartialEntryContext.extend partialEntryContext
              (EntryContext.fields
                 (jsesc E partialEntryContext)
                 (\<lambda>routeId. readMember (routeModules init) routeId)
                 (\<lambda>_. Inl cannotLoad))
      in (serverEntryModule init req statusCode entryContext,
          [GetPartialManifest entryNames, Render statusCode entryContext]))"

definition handleHtmlRequest ::
  "'w Env \<Rightarrow> RemixServerInit \<Rightarrow> Request \<Rightarrow> jsval \<Rightarrow> Response \<times> Event list" where
  "handleHtmlRequest E init req context =
     (let cfg = config init;
          location = createLocation (parsePath E) (url req) None None
      in case matchRoutes E (routes cfg) (url req) of
           None \<Rightarrow>
             (case renderEntry E init req 404 [syntheticMatch location ''routes/404''] [] of
                (response, rendered) \<Rightarrow> (response, MatchRoutes (url req) # rendered))
         | Some matches \<Rightarrow>
             (let loaderResults = loadData E cfg matches location context;
                  loaded = [MatchRoutes (url req), LoadData matches location]
              in case findRedirect loaderResults of
                   Some (target, httpStatus) \<Rightarrow>
                     (\<lparr> body = ''Redirecting to '' @ target,
                        status = Some httpStatus,
                        headers = [(''Location'', target)] \<rparr>,
                      loaded)
                 | None \<Rightarrow>
                     (case (case findError loaderResults of
                              Some (err, httpStatus) \<Rightarrow>
                                renderEntry E init req httpStatus
                                  [syntheticMatch location ''routes/500''] loaderResults
                            | None \<Rightarrow>
                                (case findChangeStatusCode loaderResults of
                                   Some httpStatus \<Rightarrow>
                                     renderEntry E init req httpStatus
                                       [syntheticMatch location (''routes/'' @ showNat httpStatus)]
                                       loaderResults
                                 | None \<Rightarrow>
                                     renderEntry E init req 200 matches loaderResults)) of
                        (response, rendered) \<Rightarrow> (response, loaded @ rendered))))"

subsection \<open>createRequestHandler (lines 51-77)\<close>

text \<open>
  The closure keeps one variable, \<open>initPromise\<close>. A promise is the number of the
  \<open>initializeServer\<close> call that made it and the value it settles to; the server also
  counts the calls made so far, and carries the state of the outside world.
\<close>

datatype InitPromise = InitPromise nat RemixServerInit

record 'w Server =
  world :: 'w
  initCalls :: nat
  initPromise :: InitPromise

definition createRequestHandler :: "'w Env \<Rightarrow> 'w \<Rightarrow> string option \<Rightarrow> 'w Server" where
  "createRequestHandler E w remixRoot =
     \<lparr> world = w, initCalls = 1, initPromise = InitPromise 0 (initializeServer E w remixRoot) \<rparr>"

text \<open>Lines 63-75: the request goes to one of the three handlers, by the prefix of its URL.\<close>

definition dispatch ::
  "'w Env \<Rightarrow> RemixServerInit \<Rightarrow> Request \<Rightarrow> jsval \<Rightarrow> Response \<times> Event list" where
  "dispatch E init req loadContext =
     (if startsWith (url req) ''/__remix_data'' then handleDataRequest E init req loadContext
      else if startsWith (url req) ''/__remix_patch'' then handlePatchRequest E init req
      else handleHtmlRequest E init req loadContext)"

text \<open>
  The handler that \<open>createRequestHandler\<close> returns (lines 54-76), on the server's state.
  \<open>NODE_ENV\<close> is the value of \<open>process.env.NODE_ENV\<close>.
\<close>

definition requestHandler ::
  "'w Env \<Rightarrow> string option \<Rightarrow> string option \<Rightarrow> 'w Server \<Rightarrow> Request \<Rightarrow> jsval
     \<Rightarrow> (Response \<times> Event list) \<times> 'w Server" where
  "requestHandler E NODE_ENV remixRoot s req loadContext =
     (case (if NODE_ENV = Some ''development''
            then (case initPromise s of
                    InitPromise n cached \<Rightarrow>
                      (let root = rootDirectory (config cached);
                           w' = purgeRequireCache E root (world s)
                       in (s\<lparr> world := w',
                              initCalls := Suc (initCalls s),
                              initPromise :=
                                InitPromise (initCalls s) (initializeServer E w' remixRoot) \<rparr>,
                           [AwaitInit n, PurgeRequireCache root,
                            InitializeServer remixRoot (initCalls s)])))
            else (s, [])) of
        (s', started) \<Rightarrow>
          (case initPromise s' of
             InitPromise n init \<Rightarrow>
               (case dispatch E init req loadContext of
                  (response, handled) \<Rightarrow>
                    ((response, started @ [AwaitInit n] @ handled), s'))))"

section \<open>The load strategies, from the spec\<close>

text \<open>
  Modelled from the spec: \<open>loadData\<close> and \<open>loadDataDiff\<close> of \<open>./loader\<close> are missing
  from the sources. The spec says which loaders each strategy invokes. Full load: "for
  every RouteMatch with a loader, invoke it". Diff load: "only routes whose (route.id,
  loader identity) is not found at the same position in the previous list are
  (re-)invoked". \<open>loadersInvoked\<close> reads that off a call the handler made.
\<close>

definition hasLoader :: "RouteMatch \<Rightarrow> bool" where
  "hasLoader m = (loader (route m) \<noteq> None)"

definition foundAtSamePosition :: "RouteMatch list \<Rightarrow> nat \<Rightarrow> RouteMatch \<Rightarrow> bool" where
  "foundAtSamePosition previous i m =
     (i < length previous
      \<and> id' (route (previous ! i)) = id' (route m)
      \<and> loader (route (previous ! i)) = loader (route m))"

definition invokedByDiff :: "RouteMatch list \<Rightarrow> RouteMatch list \<Rightarrow> RouteMatch list" where
  "invokedByDiff matches previous =
     map snd (filter (\<lambda>(i, m). hasLoader m \<and> \<not> foundAtSamePosition previous i m)
                     (enumerate 0 matches))"

fun loadersInvoked :: "Event \<Rightarrow> RouteMatch list" where
  "loadersInvoked (LoadData matches location) = filter hasLoader matches"
| "loadersInvoked (LoadDataDiff matches previous location) = invokedByDiff matches previous"
| "loadersInvoked _ = []"

text \<open>The entry contexts handed to the render hook, in order.\<close>

fun renderedContexts :: "Event list \<Rightarrow> EntryContext list" where
  "renderedContexts [] = []"
| "renderedContexts (Render statusCode entryContext # es) = entryContext # renderedContexts es"
| "renderedContexts (_ # es) = renderedContexts es"

section \<open>A sample application\<close>

text \<open>
  Concrete collaborators, to run the handlers on concrete requests. The outside world is
  the number of the build on disk.
\<close>

text \<open>\<open>parsePath\<close> of the history package: the hash from the first \<open>#\<close>, the search from
  the first \<open>?\<close> before it, the pathname before that; a part that is empty is absent.\<close>

definition sampleParsePath :: "string \<Rightarrow> PartialPath" where
  "sampleParsePath u =
     (let h = dropWhile (\<lambda>c. c \<noteq> CHR ''#'') u;
          u1 = takeWhile (\<lambda>c. c \<noteq> CHR ''#'') u;
          s = dropWhile (\<lambda>c. c \<noteq> CHR ''?'') u1;
          p = takeWhile (\<lambda>c. c \<noteq> CHR ''?'') u1
      in (if p = [] then None else Some p,
          if s = [] then None else Some s,
          if h = [] then None else Some h))"

fun splitOn :: "char \<Rightarrow> string \<Rightarrow> string list" where
  "splitOn c [] = [[]]"
| "splitOn c (x # xs) =
     (if x = c then [] # splitOn c xs
      else (case splitOn c xs of [] \<Rightarrow> [[x]] | y # ys \<Rightarrow> (x # y) # ys))"

text \<open>\<open>new URLSearchParams(search)\<close> on a query string without percent-escapes.\<close>

definition sampleURLSearchParams :: "string \<Rightarrow> (string \<times> string) list" where
  "sampleURLSearchParams s =
     map (\<lambda>kv. (takeWhile (\<lambda>c. c \<noteq> CHR ''='') kv, drop 1 (dropWhile (\<lambda>c. c \<noteq> CHR ''='') kv)))
         (filter (\<lambda>kv. kv \<noteq> []) (splitOn (CHR ''&'') (if take 1 s = ''?'' then drop 1 s else s)))"

definition sampleRoute :: "string \<Rightarrow> string \<Rightarrow> string option \<Rightarrow> RouteDefinition" where
  "sampleRoute p i l = \<lparr> path = p, id' = i, component = i @ ''.js'', loader = l \<rparr>"

definition layoutRoute :: RouteDefinition where
  "layoutRoute = sampleRoute ''/'' ''routes/layout'' (Some ''loaders/layout.js'')"

definition gistsRoute :: RouteDefinition where
  "gistsRoute = sampleRoute ''gists'' ''routes/gists'' (Some ''loaders/gists.js'')"

definition aboutRoute :: RouteDefinition where
  "aboutRoute = sampleRoute ''about'' ''routes/about'' None"

definition privateRoute :: RouteDefinition where
  "privateRoute = sampleRoute ''private'' ''routes/private'' (Some ''loaders/private.js'')"

definition brokenRoute :: RouteDefinition where
  "brokenRoute = sampleRoute ''broken'' ''routes/broken'' (Some ''loaders/broken.js'')"

definition createdRoute :: RouteDefinition where
  "createdRoute = sampleRoute ''created'' ''routes/created'' (Some ''loaders/created.js'')"

definition sampleRoutes :: "ConfigRoute list" where
  "sampleRoutes =
     [ConfigRoute layoutRoute
        [ConfigRoute gistsRoute [], ConfigRoute aboutRoute [], ConfigRoute privateRoute [],
         ConfigRoute brokenRoute []],
      ConfigRoute createdRoute [ConfigRoute brokenRoute []]]"

definition sampleMatch :: "string \<Rightarrow> RouteDefinition \<Rightarrow> RouteMatch" where
  "sampleMatch pn r = \<lparr> match_pathname = pn, params = [], route = r \<rparr>"

definition sampleMatchRoutes :: "ConfigRoute list \<Rightarrow> string \<Rightarrow> RouteMatch list option" where
  "sampleMatchRoutes rs p =
     (if rs = [] then None
      else if p = ''/gists'' then Some [sampleMatch ''/'' layoutRoute, sampleMatch ''/gists'' gistsRoute]
      else if p = ''/about'' then Some [sampleMatch ''/'' layoutRoute, sampleMatch ''/about'' aboutRoute]
      else if p = ''/private''
        then Some [sampleMatch ''/'' layoutRoute, sampleMatch ''/private'' privateRoute]
      else if p = ''/broken''
        then Some [sampleMatch ''/'' layoutRoute, sampleMatch ''/broken'' brokenRoute]
      else if p = ''/created/broken''
        then Some [sampleMatch ''/created'' createdRoute, sampleMatch ''/created/broken'' brokenRoute]
      else None)"

definition sampleLoader :: "RouteMatch \<Rightarrow> LoaderResult" where
  "sampleLoader m =
     (case loader (route m) of
        None \<Rightarrow> LoaderResultSuccess JNull
      | Some l \<Rightarrow>
          (if l = ''loaders/layout.js'' then LoaderResultSuccess (JObj [(''user'', JStr ''alice'')])
           else if l = ''loaders/gists.js'' then LoaderResultSuccess (JArr [JStr ''gist-1''])
           else if l = ''loaders/private.js'' then LoaderResultRedirect ''/login'' 302
           else if l = ''loaders/created.js'' then LoaderResultChangeStatusCode 201
           else LoaderResultError (JStr ''boom'') 500))"

text \<open>In the sample, a route the diff strategy does not run again yields \<open>undefined\<close>.\<close>

definition sampleLoadDataDiff :: "RouteMatch list \<Rightarrow> RouteMatch list \<Rightarrow> LoaderResult list" where
  "sampleLoadDataDiff matches previous =
     map (\<lambda>(i, m). if foundAtSamePosition previous i m then LoaderResultSuccess JUndefined
                    else sampleLoader m)
         (enumerate 0 matches)"

text \<open>
  Modelled from the spec: \<open>createRouteData\<close>, \<open>createRouteDataResults\<close>,
  \<open>createRouteManifest\<close> and \<open>createRouteParams\<close> of \<open>./entry\<close> are missing from the
  sources. The spec: the route data is the "serializable union of all per-route results";
  the data results are "per-route result summaries (success payload, or serialized
  error/redirect/status markers), in the same order as the match list"; the route manifest
  is a "mapping from route id to a render-relevant subset of the route definition (path,
  id, component reference)"; the route params are a "mapping route id -> matched URL
  params".
\<close>

fun resultSummary :: "LoaderResult \<Rightarrow> jsval" where
  "resultSummary (LoaderResultSuccess d) = d"
| "resultSummary (LoaderResultRedirect l st) =
     JObj [(''redirect'', JStr l), (''status'', JNum (int st))]"
| "resultSummary (LoaderResultError e st) = JObj [(''error'', e), (''status'', JNum (int st))]"
| "resultSummary (LoaderResultChangeStatusCode st) = JObj [(''status'', JNum (int st))]"

definition sampleCreateRouteData :: "LoaderResult list \<Rightarrow> jsval" where
  "sampleCreateRouteData results = JArr (map resultSummary results)"

definition sampleCreateRouteManifest :: "RouteMatch list \<Rightarrow> jsval" where
  "sampleCreateRouteManifest matches =
     JObj (map (\<lambda>m. (id' (route m),
                      JObj [(''path'', JStr (path (route m))), (''id'', JStr (id' (route m))),
                            (''component'', JStr (component (route m)))]))
               matches)"

definition sampleCreateRouteParams :: "RouteMatch list \<Rightarrow> jsval" where
  "sampleCreateRouteParams matches =
     JObj (map (\<lambda>m. (id' (route m), JObj (map (\<lambda>(k, v). (k, JStr v)) (params m)))) matches)"

definition sampleManifest :: "nat \<Rightarrow> BuildManifest" where
  "sampleManifest build =
     [(''__entry_browser__'', JStr (''entry-browser.'' @ showNat build @ ''.js'')),
      (''routes/layout'', JStr ''layout.js''),
      (''routes/gists'', JStr ''gists.js''),
      (''routes/404'', JStr ''404.js'')]"

text \<open>The sample render hook names the build it comes from and the routes it renders.\<close>

definition sampleRender :: "nat \<Rightarrow> ServerEntryModule" where
  "sampleRender build req statusCode entryContext =
     \<lparr> body = ''build '' @ showNat build @ '': '' @ joinWith '','' (matchedRouteIds entryContext),
       status = Some statusCode,
       headers = [(''Content-Type'', ''text/html'')] \<rparr>"

definition sampleEnv :: "nat Env" where
  "sampleEnv =
     \<lparr> parsePath = sampleParsePath,
       URLSearchParams = sampleURLSearchParams,
       matchRoutes = sampleMatchRoutes,
       loadData = (\<lambda>cfg matches location context. map sampleLoader matches),
       loadDataDiff = (\<lambda>cfg matches previous location context. sampleLoadDataDiff matches previous),
       createRouteData = sampleCreateRouteData,
       createRouteDataResults = sampleCreateRouteData,
       createRouteManifest = sampleCreateRouteManifest,
       createRouteParams = sampleCreateRouteParams,
       jsesc = (\<lambda>partialEntryContext. JSON_stringify (routeData partialEntryContext)),
       readConfig = (\<lambda>build remixRoot.
          \<lparr> rootDirectory = (case remixRoot of None \<Rightarrow> ''/app'' | Some r \<Rightarrow> r),
            serverBuildDirectory = ''/app/build'',
            publicPath = ''/build/'',
            routes = sampleRoutes \<rparr>),
       getBrowserManifest = (\<lambda>build dir. sampleManifest build),
       getServerManifest = (\<lambda>build dir. sampleManifest build),
       getServerEntryModule = (\<lambda>build dir manifest. sampleRender build),
       getRouteModules = (\<lambda>build dir rs manifest. [(''routes/layout'', JStr ''module'')]),
       purgeRequireCache = (\<lambda>root build. build) \<rparr>"

text \<open>The initialization made from build \<open>n\<close>.\<close>

definition sampleInit :: "nat \<Rightarrow> RemixServerInit" where
  "sampleInit build = initializeServer sampleEnv build None"

text \<open>
  A server that was created when build 0 was on disk; build 1 is on disk now.
\<close>

definition sampleServer :: "nat Server" where
  "sampleServer = \<lparr> world = 1, initCalls = 1, initPromise = InitPromise 0 (sampleInit 0) \<rparr>"

section \<open>Properties of the Manifest Slicer\<close>

lemma insertIndex_keys: "set (map fst (insertIndex n k v ps)) = insert k (set (map fst ps))"
  by (induction ps) (auto split: option.splits)

lemma insertIndex_map_of:
  "k \<notin> set (map fst ps) \<Longrightarrow> map_of (insertIndex n k v ps) = (map_of ps)(k \<mapsto> v)"
proof (induction ps)
  case Nil
  then show ?case by simp
next
  case (Cons p ps)
  then have "fst p \<noteq> k" and "k \<notin> set (map fst ps)"
    by auto
  with Cons.IH show ?case
    by (cases p) (auto split: option.splits simp: fun_upd_twist)
qed

lemma setProp_map_of: "map_of (setProp obj k v) = (map_of obj)(k \<mapsto> v)"
proof (cases "k \<in> set (map fst obj)")
  case True
  then show ?thesis by (simp add: setProp_def update_conv')
next
  case False
  then have "map_of obj k = None"
    by (simp add: map_of_eq_None_iff)
  have "map_of (obj @ [(k, v)]) = (map_of obj)(k \<mapsto> v)"
    using \<open>map_of obj k = None\<close>
    by (intro ext) (auto simp: map_add_def split: option.splits)
  with False show ?thesis
    by (simp add: setProp_def insertIndex_map_of split: option.splits)
qed

lemma slice_fold_lookup:
  "map_of (foldl (\<lambda>memo k. setProp memo k (getProp m k)) acc ks) k' =
     (if k' \<in> set ks then Some (getProp m k') else map_of acc k')"
  by (induction ks arbitrary: acc) (auto simp: setProp_map_of)

lemma copyEntry_plain:
  assumes "k \<noteq> ''__proto__''"
  shows "copyEntry m memo k
           = memo\<lparr> ownProperties := (ownProperties memo)(k \<mapsto> readMember m k) \<rparr>"
  using assms by (simp add: copyEntry_def)

lemma chain_fold:
  assumes "''__proto__'' \<notin> set ks"
  shows "foldl (copyEntry m) memo ks
           = memo\<lparr> ownProperties :=
                     (\<lambda>k. if k \<in> set ks then Some (readMember m k) else ownProperties memo k) \<rparr>"
  using assms
proof (induction ks arbitrary: memo)
  case Nil
  then show ?case by simp
next
  case (Cons k ks)
  then have k: "k \<noteq> ''__proto__''" and ks: "''__proto__'' \<notin> set ks"
    by auto
  show ?case
    by (simp add: copyEntry_plain [OF k] Cons.IH [OF ks] fun_eq_iff)
qed

lemma getPartialManifest_chain_lookup:
  assumes "''__proto__'' \<notin> set entryNames"
  shows "ownProperties (getPartialManifest_chain manifest entryNames) k
           = (if k \<in> set entryNames then Some (readMember manifest k) else None)"
    and "prototype (getPartialManifest_chain manifest entryNames) = ObjectPrototype"
  by (simp_all add: getPartialManifest_chain_def chain_fold [OF assms])

text \<open>
  Where no entry name is the name of a member of \<open>Object.prototype\<close>, the slicer on own
  properties gives the own properties of the slicer's result, and the result's prototype is
  \<open>Object.prototype\<close>.
\<close>

lemma getPartialManifest_own_view:
  assumes "set entryNames \<inter> set objectPrototypeNames = {}"
  shows "ownProperties (getPartialManifest_chain manifest entryNames)
           = map_option Data \<circ> map_of (getPartialManifest manifest entryNames)"
    and "prototype (getPartialManifest_chain manifest entryNames) = ObjectPrototype"
proof -
  have no_proto: "''__proto__'' \<notin> set entryNames"
    using assms by (auto simp: objectPrototypeNames_def)
  have same: "readMember manifest k = Data (getProp manifest k)" if "k \<in> set entryNames" for k
  proof -
    from that assms have "k \<notin> set objectPrototypeNames"
      by auto
    then show ?thesis
      by (simp add: readMember_def getProp_def split: option.splits)
  qed
  show "ownProperties (getPartialManifest_chain manifest entryNames)
          = map_option Data \<circ> map_of (getPartialManifest manifest entryNames)"
    by (rule ext)
       (simp add: getPartialManifest_chain_lookup(1) [OF no_proto] getPartialManifest_def
          slice_fold_lookup same)
  show "prototype (getPartialManifest_chain manifest entryNames) = ObjectPrototype"
    by (rule getPartialManifest_chain_lookup(2) [OF no_proto])
qed

text \<open>
  C8, as the code has it. For every manifest and every list of entry names that does not
  hold \<open>__proto__\<close>, the own keys of the object the slicer returns are exactly the entry
  names, and each is mapped to \<open>manifest[name]\<close> as the runtime reads it: the manifest's
  own value, as it stands; for a name the manifest does not have, an explicit
  \<open>undefined\<close>, the key being there; except that for a name the manifest does not have
  and \<open>Object.prototype\<close> does (\<open>constructor\<close>, \<open>toString\<close>, ...) it is the member
  inherited from \<open>Object.prototype\<close>.
\<close>

theorem getPartialManifest_chain_keys:
  assumes "''__proto__'' \<notin> set entryNames"
  shows "dom (ownProperties (getPartialManifest_chain manifest entryNames)) = set entryNames
         \<and> prototype (getPartialManifest_chain manifest entryNames) = ObjectPrototype
         \<and> (\<forall>k \<in> set entryNames.
              ownProperties (getPartialManifest_chain manifest entryNames) k
                = Some (readMember manifest k))
         \<and> (\<forall>k \<in> set entryNames. \<forall>v. map_of manifest k = Some v \<longrightarrow>
              ownProperties (getPartialManifest_chain manifest entryNames) k = Some (Data v))
         \<and> (\<forall>k \<in> set entryNames.
              k \<notin> set (map fst manifest) \<and> k \<notin> set objectPrototypeNames \<longrightarrow>
              ownProperties (getPartialManifest_chain manifest entryNames) k
                = Some (Data JUndefined))
         \<and> (\<forall>k \<in> set entryNames.
              k \<notin> set (map fst manifest) \<and> k \<in> set objectPrototypeNames \<longrightarrow>
              ownProperties (getPartialManifest_chain manifest entryNames) k
                = Some (Inherited k))"
proof -
  let ?r = "getPartialManifest_chain manifest entryNames"
  note look = getPartialManifest_chain_lookup [OF assms, of manifest]
  have keys: "dom (ownProperties ?r) = set entryNames"
    by (auto simp: look(1) dom_def split: if_splits)
  have own: "ownProperties ?r k = Some (Data v)"
    if "k \<in> set entryNames" and "map_of manifest k = Some v" for k v
    using that by (simp add: look(1) readMember_def)
  have absent: "map_of manifest k = None" if "k \<notin> set (map fst manifest)" for k
    using that by (simp add: map_of_eq_None_iff)
  have undef: "ownProperties ?r k = Some (Data JUndefined)"
    if "k \<in> set entryNames" and "k \<notin> set (map fst manifest)"
      and "k \<notin> set objectPrototypeNames" for k
    using that absent [of k] by (simp add: look(1) readMember_def)
  have inherited: "ownProperties ?r k = Some (Inherited k)"
    if "k \<in> set entryNames" and "k \<notin> set (map fst manifest)"
      and "k \<in> set objectPrototypeNames" for k
    using that absent [of k] by (simp add: look(1) readMember_def)
  from keys look own undef inherited show ?thesis
    by simp
qed

theorem getPartialManifest_chain_keys_witness:
  "dom (ownProperties (getPartialManifest_chain
          [(''routes/a'', JStr ''a.js''), (''routes/b'', JStr ''b.js'')]
          [''routes/b'', ''routes/zzz'', ''toString''])) = {''routes/b'', ''routes/zzz'', ''toString''}
   \<and> ownProperties (getPartialManifest_chain
          [(''routes/a'', JStr ''a.js''), (''routes/b'', JStr ''b.js'')]
          [''routes/b'', ''routes/zzz'', ''toString'']) ''routes/b'' = Some (Data (JStr ''b.js''))
   \<and> ownProperties (getPartialManifest_chain
          [(''routes/a'', JStr ''a.js''), (''routes/b'', JStr ''b.js'')]
          [''routes/b'', ''routes/zzz'', ''toString'']) ''routes/zzz'' = Some (Data JUndefined)
   \<and> ownProperties (getPartialManifest_chain
          [(''routes/a'', JStr ''a.js''), (''routes/b'', JStr ''b.js'')]
          [''routes/b'', ''routes/zzz'', ''toString'']) ''toString'' = Some (Inherited ''toString'')"
proof -
  have n: "''__proto__'' \<notin> set [''routes/b'', ''routes/zzz'', ''toString'']"
    by simp
  show ?thesis
    using getPartialManifest_chain_keys
            [OF n, of "[(''routes/a'', JStr ''a.js''), (''routes/b'', JStr ''b.js'')]"]
    by (simp add: objectPrototypeNames_def readMember_def)
qed

text \<open>
  C8 as stated speaks of every list of entry names. With the entry name \<open>__proto__\<close> the
  assignment reaches the setter of \<open>Object.prototype\<close> and creates no property: the key is
  left out of the result. With the entry name \<open>constructor\<close>, which the manifest does not
  have, the result's value is the function \<open>Object\<close> that the manifest inherits, not
  \<open>undefined\<close>.
\<close>

theorem getPartialManifest_chain_counterexample:
  "dom (ownProperties (getPartialManifest_chain [(''routes/a'', JStr ''a.js'')]
                         [''routes/a'', ''__proto__''])) = {''routes/a''}
   \<and> ownProperties (getPartialManifest_chain [(''routes/a'', JStr ''a.js'')]
                       [''routes/a'', ''__proto__'']) ''__proto__'' = None
   \<and> map_of [(''routes/a'', JStr ''a.js'')] ''constructor'' = None
   \<and> ownProperties (getPartialManifest_chain [(''routes/a'', JStr ''a.js'')] [''constructor''])
         ''constructor'' = Some (Inherited ''constructor'')"
  by (simp add: getPartialManifest_chain_def copyEntry_def setterInherited_def readMember_def
        objectPrototypeNames_def)

lemma slice_store_fold:
  "manifest < length h \<Longrightarrow>
   foldl (sliceStep manifest (length h)) (h @ [acc]) ks
     = h @ [foldl (\<lambda>memo k. setProp memo k (getProp (h ! manifest) k)) acc ks]"
  by (induction ks arbitrary: acc) (simp_all add: sliceStep_def nth_append)

lemma getPartialManifest_store_refines:
  "manifest < length h \<Longrightarrow>
   getPartialManifest_store h manifest entryNames
     = (length h, h @ [getPartialManifest (h ! manifest) entryNames])"
  by (simp add: getPartialManifest_store_def getPartialManifest_def slice_store_fold)

text \<open>
  C9. Slicing the same manifest object twice with the same entry names, the second call
  running on the store the first one left, gives two distinct result objects with the same
  properties and values; every object that existed before the calls, the source manifest
  among them, is unchanged after each call, and the second call leaves the first result
  as it was.
\<close>

theorem getPartialManifest_twice:
  assumes "manifest < length h"
  shows "case getPartialManifest_store h manifest entryNames of
           (r1, h1) \<Rightarrow>
             (case getPartialManifest_store h1 manifest entryNames of
                (r2, h2) \<Rightarrow>
                  h2 ! r2 = h1 ! r1
                  \<and> r1 \<noteq> r2
                  \<and> h1 ! r1 = getPartialManifest (h ! manifest) entryNames
                  \<and> h1 ! manifest = h ! manifest
                  \<and> h2 ! manifest = h ! manifest
                  \<and> take (length h) h1 = h
                  \<and> take (length h) h2 = h
                  \<and> h2 ! r1 = h1 ! r1)"
proof -
  let ?slice = "getPartialManifest (h ! manifest) entryNames"
  let ?h1 = "h @ [?slice]"
  have first: "getPartialManifest_store h manifest entryNames = (length h, ?h1)"
    using assms by (rule getPartialManifest_store_refines)
  have in_h1: "manifest < length ?h1"
    using assms by simp
  have same: "?h1 ! manifest = h ! manifest"
    using assms by (simp add: nth_append)
  have second: "getPartialManifest_store ?h1 manifest entryNames
                  = (length ?h1, ?h1 @ [?slice])"
    using getPartialManifest_store_refines [OF in_h1, of entryNames] same by simp
  show ?thesis
    using assms by (simp add: first second nth_append)
qed

theorem getPartialManifest_twice_witness:
  "(0::nat) < length [[(''routes/a'', JStr ''a.js'')]]
   \<and> (case getPartialManifest_store [[(''routes/a'', JStr ''a.js'')]] 0 [''routes/a'', ''x''] of
         (r1, h1) \<Rightarrow>
           (case getPartialManifest_store h1 0 [''routes/a'', ''x''] of
              (r2, h2) \<Rightarrow>
                h2 ! r2 = [(''routes/a'', JStr ''a.js''), (''x'', JUndefined)]
                \<and> h1 ! r1 = [(''routes/a'', JStr ''a.js''), (''x'', JUndefined)]
                \<and> h2 ! 0 = [(''routes/a'', JStr ''a.js'')]))"
proof -
  have names: "arrayIndex ''routes/a'' = None" "arrayIndex ''x'' = None"
    by (simp_all add: arrayIndex_def isDigit_def)
  show ?thesis
    using getPartialManifest_twice [of 0 "[[(''routes/a'', JStr ''a.js'')]]" "[''routes/a'', ''x'']"]
    by (simp add: getPartialManifest_store_def sliceStep_def getPartialManifest_def
          setProp_def getProp_def names)
qed

section \<open>Running the sample application\<close>

lemma sample_config [simp]:
  "config (sampleInit b) =
     \<lparr> rootDirectory = ''/app'', serverBuildDirectory = ''/app/build'',
       publicPath = ''/build/'', routes = sampleRoutes \<rparr>"
  by (simp add: sampleInit_def initializeServer_def sampleEnv_def Let_def)

lemma sample_render [simp]: "serverEntryModule (sampleInit b) = sampleRender b"
  by (simp add: sampleInit_def initializeServer_def sampleEnv_def Let_def)

lemma sample_matchRoutes [simp]: "matchRoutes sampleEnv = sampleMatchRoutes"
  by (simp add: sampleEnv_def)

lemma sample_loadData [simp]: "loadData sampleEnv cfg ms loc ctx = map sampleLoader ms"
  by (simp add: sampleEnv_def)

lemma sample_parsePath [simp]: "parsePath sampleEnv = sampleParsePath"
  by (simp add: sampleEnv_def)

lemma sample_searchParams [simp]: "URLSearchParams sampleEnv = sampleURLSearchParams"
  by (simp add: sampleEnv_def)

lemma sampleRoutes_nonempty [simp]: "sampleRoutes \<noteq> []"
  by (simp add: sampleRoutes_def)

lemma showNat_evals [simp]: "showNat 0 = ''0''" "showNat (Suc 0) = ''1''"
  by (simp_all add: showNat.simps digitChar_def)

lemma sample_loader_evals [simp]:
  "sampleLoader (sampleMatch pn layoutRoute) = LoaderResultSuccess (JObj [(''user'', JStr ''alice'')])"
  "sampleLoader (sampleMatch pn gistsRoute) = LoaderResultSuccess (JArr [JStr ''gist-1''])"
  "sampleLoader (sampleMatch pn aboutRoute) = LoaderResultSuccess JNull"
  "sampleLoader (sampleMatch pn privateRoute) = LoaderResultRedirect ''/login'' 302"
  "sampleLoader (sampleMatch pn createdRoute) = LoaderResultChangeStatusCode 201"
  "sampleLoader (sampleMatch pn brokenRoute) = LoaderResultError (JStr ''boom'') 500"
  by (simp_all add: sampleLoader_def sampleMatch_def layoutRoute_def gistsRoute_def aboutRoute_def
        privateRoute_def createdRoute_def brokenRoute_def sampleRoute_def)

lemma sample_broken_results:
  "map sampleLoader [sampleMatch ''/'' layoutRoute, sampleMatch ''/broken'' brokenRoute]
     = [LoaderResultSuccess (JObj [(''user'', JStr ''alice'')]),
        LoaderResultError (JStr ''boom'') 500]"
  by simp

lemma sample_purge [simp]: "purgeRequireCache sampleEnv root b = b"
  by (simp add: sampleEnv_def)

lemma sample_initialize [simp]: "initializeServer sampleEnv b None = sampleInit b"
  by (simp add: sampleInit_def)

lemma sample_gists:
  "dispatch sampleEnv (sampleInit b) \<lparr> url = ''/gists'' \<rparr> JNull
     = (case renderEntry sampleEnv (sampleInit b) \<lparr> url = ''/gists'' \<rparr> 200
               [sampleMatch ''/'' layoutRoute, sampleMatch ''/gists'' gistsRoute]
               [LoaderResultSuccess (JObj [(''user'', JStr ''alice'')]),
                LoaderResultSuccess (JArr [JStr ''gist-1''])] of
          (response, rendered) \<Rightarrow>
            (response,
             [MatchRoutes ''/gists'',
              LoadData [sampleMatch ''/'' layoutRoute, sampleMatch ''/gists'' gistsRoute]
                (createLocation sampleParsePath ''/gists'' None None)] @ rendered))"
  by (simp add: dispatch_def startsWith_def handleHtmlRequest_def Let_def sampleMatchRoutes_def)

lemma sample_gists_body:
  "body (fst (dispatch sampleEnv (sampleInit b) \<lparr> url = ''/gists'' \<rparr> JNull))
     = ''build '' @ showNat b @ '': routes/layout,routes/gists''"
  by (simp add: sample_gists renderEntry_def Let_def sampleRender_def sampleMatch_def
        layoutRoute_def gistsRoute_def sampleRoute_def
        PartialEntryContext.extend_def EntryContext.fields_def)

lemma sample_browserManifest [simp]: "browserManifest (sampleInit b) = sampleManifest b"
  by (simp add: sampleInit_def initializeServer_def sampleEnv_def Let_def)

lemma sample_slice_500:
  "getPartialManifest (sampleManifest 0) [''__entry_browser__'', ''routes/500'']
     = [(''__entry_browser__'', JStr ''entry-browser.0.js''), (''routes/500'', JUndefined)]"
proof -
  have names: "arrayIndex ''__entry_browser__'' = None" "arrayIndex ''routes/500'' = None"
    by (simp_all add: arrayIndex_def isDigit_def)
  show ?thesis
    by (simp add: getPartialManifest_def setProp_def getProp_def sampleManifest_def names)
qed

lemma sample_location_data:
  "createLocation sampleParsePath ''/__remix_data?from=/gists'' None None
     = \<lparr> pathname = ''/__remix_data'', search = ''?from=/gists'', hash = [],
         state = JNull, key = ''default'' \<rparr>"
  by (simp add: createLocation_def sampleParsePath_def)

lemma sample_location_patch:
  "createLocation sampleParsePath ''/__remix_patch'' None None
     = \<lparr> pathname = ''/__remix_patch'', search = [], hash = [],
         state = JNull, key = ''default'' \<rparr>"
  by (simp add: createLocation_def sampleParsePath_def)

lemma sample_location_nowhere:
  "createLocation sampleParsePath ''/__remix_patch?path=/nowhere'' None None
     = \<lparr> pathname = ''/__remix_patch'', search = ''?path=/nowhere'', hash = [],
         state = JNull, key = ''default'' \<rparr>"
  by (simp add: createLocation_def sampleParsePath_def)

lemma sample_params_nowhere:
  "sampleURLSearchParams ''?path=/nowhere'' = [(''path'', ''/nowhere'')]"
  by (simp add: sampleURLSearchParams_def)

lemma sample_location_diff:
  "createLocation sampleParsePath ''/__remix_data?path=/gists&from=/zzz'' None None
     = \<lparr> pathname = ''/__remix_data'', search = ''?path=/gists&from=/zzz'', hash = [],
         state = JNull, key = ''default'' \<rparr>"
  by (simp add: createLocation_def sampleParsePath_def)

lemma sample_params_diff:
  "sampleURLSearchParams ''?path=/gists&from=/zzz'' = [(''path'', ''/gists''), (''from'', ''/zzz'')]"
  by (simp add: sampleURLSearchParams_def)

section \<open>Properties of the request handler\<close>

subsection \<open>Development mode\<close>

text \<open>
  C1, as the code has it. In development mode the handler awaits the cached
  initialization, purges the require cache for the root directory of that
  initialization's config, starts a fresh initialization and stores its promise, and then
  awaits that fresh promise: the request is handled entirely with the fresh
  initialization. The initialization awaited before the purge only says which root
  directory to purge.
\<close>

theorem requestHandler_development:
  assumes dev: "NODE_ENV = Some ''development''"
    and cached: "initPromise s = InitPromise n old"
  shows "requestHandler E NODE_ENV remixRoot s req loadContext =
           (let w' = purgeRequireCache E (rootDirectory (config old)) (world s);
                fresh = initializeServer E w' remixRoot
            in ((fst (dispatch E fresh req loadContext),
                 [AwaitInit n,
                  PurgeRequireCache (rootDirectory (config old)),
                  InitializeServer remixRoot (initCalls s),
                  AwaitInit (initCalls s)]
                 @ snd (dispatch E fresh req loadContext)),
                s\<lparr> world := w',
                   initCalls := Suc (initCalls s),
                   initPromise := InitPromise (initCalls s) fresh \<rparr>))"
  using assms by (simp add: requestHandler_def Let_def split: prod.splits)

theorem requestHandler_development_witness:
  "requestHandler sampleEnv (Some ''development'') None sampleServer \<lparr> url = ''/gists'' \<rparr> JNull
     = ((fst (dispatch sampleEnv (sampleInit 1) \<lparr> url = ''/gists'' \<rparr> JNull),
         [AwaitInit 0, PurgeRequireCache ''/app'', InitializeServer None 1, AwaitInit 1]
         @ snd (dispatch sampleEnv (sampleInit 1) \<lparr> url = ''/gists'' \<rparr> JNull)),
        \<lparr> world = 1, initCalls = 2, initPromise = InitPromise 1 (sampleInit 1) \<rparr>)"
proof -
  have dev: "Some ''development'' = Some ''development''"
    by simp
  have cached: "initPromise sampleServer = InitPromise 0 (sampleInit 0)"
    by (simp add: sampleServer_def)
  show ?thesis
    using requestHandler_development [OF dev cached, of sampleEnv None "\<lparr> url = ''/gists'' \<rparr>" JNull]
    by (simp add: Let_def sampleServer_def)
qed

text \<open>
  C1 as stated says the request is handled with the initialization it awaited before
  the purge. On the sample server that one was made from build 0: handled with it, the
  request for \<open>/gists\<close> would be rendered by build 0. The handler's response is rendered by
  build 1, and the fourth thing the handler does is await promise 1, the fresh one.
\<close>

theorem requestHandler_development_snapshot_counterexample:
  "initPromise sampleServer = InitPromise 0 (sampleInit 0)
   \<and> body (fst (dispatch sampleEnv (sampleInit 0) \<lparr> url = ''/gists'' \<rparr> JNull))
       = ''build 0: routes/layout,routes/gists''
   \<and> body (fst (fst (requestHandler sampleEnv (Some ''development'') None sampleServer
                       \<lparr> url = ''/gists'' \<rparr> JNull)))
       = ''build 1: routes/layout,routes/gists''
   \<and> fst (fst (requestHandler sampleEnv (Some ''development'') None sampleServer
                 \<lparr> url = ''/gists'' \<rparr> JNull))
       \<noteq> fst (dispatch sampleEnv (sampleInit 0) \<lparr> url = ''/gists'' \<rparr> JNull)
   \<and> take 4 (snd (fst (requestHandler sampleEnv (Some ''development'') None sampleServer
                         \<lparr> url = ''/gists'' \<rparr> JNull)))
       = [AwaitInit 0, PurgeRequireCache ''/app'', InitializeServer None 1, AwaitInit 1]"
proof -
  have run: "requestHandler sampleEnv (Some ''development'') None sampleServer
               \<lparr> url = ''/gists'' \<rparr> JNull
             = ((fst (dispatch sampleEnv (sampleInit 1) \<lparr> url = ''/gists'' \<rparr> JNull),
                 [AwaitInit 0, PurgeRequireCache ''/app'', InitializeServer None 1, AwaitInit 1]
                 @ snd (dispatch sampleEnv (sampleInit 1) \<lparr> url = ''/gists'' \<rparr> JNull)),
                \<lparr> world = 1, initCalls = 2, initPromise = InitPromise 1 (sampleInit 1) \<rparr>)"
    by (simp add: requestHandler_def sampleServer_def Let_def split: prod.splits)
  have b0: "body (fst (dispatch sampleEnv (sampleInit 0) \<lparr> url = ''/gists'' \<rparr> JNull))
              = ''build 0: routes/layout,routes/gists''"
    by (simp add: sample_gists_body)
  have b1: "body (fst (dispatch sampleEnv (sampleInit 1) \<lparr> url = ''/gists'' \<rparr> JNull))
              = ''build 1: routes/layout,routes/gists''"
    by (simp add: sample_gists_body)
  have differ: "fst (dispatch sampleEnv (sampleInit 1) \<lparr> url = ''/gists'' \<rparr> JNull)
                  \<noteq> fst (dispatch sampleEnv (sampleInit 0) \<lparr> url = ''/gists'' \<rparr> JNull)"
  proof
    assume "fst (dispatch sampleEnv (sampleInit 1) \<lparr> url = ''/gists'' \<rparr> JNull)
              = fst (dispatch sampleEnv (sampleInit 0) \<lparr> url = ''/gists'' \<rparr> JNull)"
    then have "body (fst (dispatch sampleEnv (sampleInit 1) \<lparr> url = ''/gists'' \<rparr> JNull))
                 = body (fst (dispatch sampleEnv (sampleInit 0) \<lparr> url = ''/gists'' \<rparr> JNull))"
      by simp
    then show False using b0 b1 by simp
  qed
  show ?thesis
    using run b0 b1 differ by (simp add: sampleServer_def)
qed

subsection \<open>HTML requests\<close>

lemma findRedirect_first:
  "\<forall>r \<in> set before. \<forall>l s. r \<noteq> LoaderResultRedirect l s \<Longrightarrow>
   findRedirect (before @ LoaderResultRedirect target httpStatus # after) = Some (target, httpStatus)"
proof (induction before)
  case Nil
  then show ?case by simp
next
  case (Cons r before)
  then show ?case by (cases r) simp_all
qed

lemma findRedirect_none:
  "\<forall>r \<in> set results. \<forall>l s. r \<noteq> LoaderResultRedirect l s \<Longrightarrow> findRedirect results = None"
proof (induction results)
  case Nil
  then show ?case by simp
next
  case (Cons r results)
  then show ?case by (cases r) simp_all
qed

lemma findError_first:
  "\<forall>r \<in> set before. \<forall>e s. r \<noteq> LoaderResultError e s \<Longrightarrow>
   findError (before @ LoaderResultError err httpStatus # after) = Some (err, httpStatus)"
proof (induction before)
  case Nil
  then show ?case by simp
next
  case (Cons r before)
  then show ?case by (cases r) simp_all
qed

text \<open>
  C2. When the loader results of an HTML request hold a redirect, the response has the
  status of the first redirect in the list, its location as the \<open>Location\<close> header and
  the body \<open>Redirecting to <location>\<close>, whatever comes after it in the list. The handler
  matched the routes and ran the loaders and did nothing else: it took no manifest slice
  and did not call the render hook.
\<close>

theorem handleHtmlRequest_redirect:
  assumes matched: "matchRoutes E (routes (config init)) (url req) = Some matches"
    and loaded: "loadData E (config init) matches
                   (createLocation (parsePath E) (url req) None None) context
                 = before @ LoaderResultRedirect target httpStatus # after"
    and first: "\<forall>r \<in> set before. \<forall>l s. r \<noteq> LoaderResultRedirect l s"
  shows "handleHtmlRequest E init req context =
           (\<lparr> body = ''Redirecting to '' @ target,
              status = Some httpStatus,
              headers = [(''Location'', target)] \<rparr>,
            [MatchRoutes (url req),
             LoadData matches (createLocation (parsePath E) (url req) None None)])"
  using matched loaded findRedirect_first [OF first, of target httpStatus after]
  by (simp add: handleHtmlRequest_def Let_def)

theorem handleHtmlRequest_redirect_witness:
  "handleHtmlRequest sampleEnv (sampleInit 0) \<lparr> url = ''/private'' \<rparr> JNull =
     (\<lparr> body = ''Redirecting to /login'', status = Some 302,
        headers = [(''Location'', ''/login'')] \<rparr>,
      [MatchRoutes ''/private'',
       LoadData [sampleMatch ''/'' layoutRoute, sampleMatch ''/private'' privateRoute]
                (createLocation sampleParsePath ''/private'' None None)])"
proof -
  have m: "matchRoutes sampleEnv (routes (config (sampleInit 0))) (url \<lparr> url = ''/private'' \<rparr>)
             = Some [sampleMatch ''/'' layoutRoute, sampleMatch ''/private'' privateRoute]"
    by (simp add: sampleMatchRoutes_def)
  have l: "loadData sampleEnv (config (sampleInit 0))
             [sampleMatch ''/'' layoutRoute, sampleMatch ''/private'' privateRoute]
             (createLocation (parsePath sampleEnv) (url \<lparr> url = ''/private'' \<rparr>) None None) JNull
           = [LoaderResultSuccess (JObj [(''user'', JStr ''alice'')])]
             @ LoaderResultRedirect ''/login'' 302 # []"
    by (simp add: sampleLoader_def sampleMatch_def layoutRoute_def privateRoute_def sampleRoute_def)
  have f: "\<forall>r \<in> set [LoaderResultSuccess (JObj [(''user'', JStr ''alice'')])].
             \<forall>l s. r \<noteq> LoaderResultRedirect l s"
    by simp
  show ?thesis
    using handleHtmlRequest_redirect [OF m l f] by simp
qed

text \<open>
  C3. When the loader results of an HTML request hold no redirect and at least one error,
  the status code handed to the render hook is the first error's, and the entry context is
  built from a single synthetic \<open>routes/500\<close> match in place of the real matches. Nothing
  is assumed about status-code changes among the results: an error wins over them.
\<close>

theorem handleHtmlRequest_error_first:
  assumes matched: "matchRoutes E (routes (config init)) (url req) = Some matches"
    and loaded: "loadData E (config init) matches
                   (createLocation (parsePath E) (url req) None None) context
                 = before @ LoaderResultError err httpStatus # after"
    and no_redirect: "\<forall>r \<in> set (before @ LoaderResultError err httpStatus # after).
                        \<forall>l s. r \<noteq> LoaderResultRedirect l s"
    and first: "\<forall>r \<in> set before. \<forall>e s. r \<noteq> LoaderResultError e s"
  shows "\<exists>entryContext.
           handleHtmlRequest E init req context =
             (serverEntryModule init req httpStatus entryContext,
              [MatchRoutes (url req),
               LoadData matches (createLocation (parsePath E) (url req) None None),
               GetPartialManifest [''__entry_browser__'', ''routes/500''],
               Render httpStatus entryContext])
           \<and> matchedRouteIds entryContext = [''routes/500'']
           \<and> routeManifest entryContext =
               createRouteManifest E
                 [syntheticMatch (createLocation (parsePath E) (url req) None None) ''routes/500'']
           \<and> routeParams entryContext =
               createRouteParams E
                 [syntheticMatch (createLocation (parsePath E) (url req) None None) ''routes/500'']
           \<and> ctx_browserManifest entryContext =
               getPartialManifest (browserManifest init) [''__entry_browser__'', ''routes/500'']"
  using matched loaded findRedirect_none [OF no_redirect]
    findError_first [OF first, of err httpStatus after]
  by (simp add: handleHtmlRequest_def renderEntry_def syntheticMatch_def Let_def
        PartialEntryContext.extend_def EntryContext.fields_def)

theorem handleHtmlRequest_error_first_witness:
  "map sampleLoader [sampleMatch ''/created'' createdRoute, sampleMatch ''/created/broken'' brokenRoute]
     = [LoaderResultChangeStatusCode 201, LoaderResultError (JStr ''boom'') 500]
   \<and> fst (handleHtmlRequest sampleEnv (sampleInit 0) \<lparr> url = ''/created/broken'' \<rparr> JNull)
       = \<lparr> body = ''build 0: routes/500'', status = Some 500,
           headers = [(''Content-Type'', ''text/html'')] \<rparr>
   \<and> map matchedRouteIds
         (renderedContexts
            (snd (handleHtmlRequest sampleEnv (sampleInit 0) \<lparr> url = ''/created/broken'' \<rparr> JNull)))
       = [[''routes/500'']]"
proof -
  let ?ms = "[sampleMatch ''/created'' createdRoute, sampleMatch ''/created/broken'' brokenRoute]"
  have m: "matchRoutes sampleEnv (routes (config (sampleInit 0)))
             (url \<lparr> url = ''/created/broken'' \<rparr>) = Some ?ms"
    by (simp add: sampleMatchRoutes_def)
  have r: "map sampleLoader ?ms
             = [LoaderResultChangeStatusCode 201, LoaderResultError (JStr ''boom'') 500]"
    by (simp add: sampleLoader_def sampleMatch_def createdRoute_def brokenRoute_def sampleRoute_def)
  have l: "loadData sampleEnv (config (sampleInit 0)) ?ms
             (createLocation (parsePath sampleEnv) (url \<lparr> url = ''/created/broken'' \<rparr>) None None)
             JNull
           = [LoaderResultChangeStatusCode 201] @ LoaderResultError (JStr ''boom'') 500 # []"
    using r by simp
  have nr: "\<forall>r \<in> set ([LoaderResultChangeStatusCode 201] @ LoaderResultError (JStr ''boom'') 500 # []).
              \<forall>l s. r \<noteq> LoaderResultRedirect l s"
    by simp
  have f: "\<forall>r \<in> set [LoaderResultChangeStatusCode 201]. \<forall>e s. r \<noteq> LoaderResultError e s"
    by simp
  from handleHtmlRequest_error_first [OF m l nr f]
  obtain entryContext where
    h: "handleHtmlRequest sampleEnv (sampleInit 0) \<lparr> url = ''/created/broken'' \<rparr> JNull =
          (serverEntryModule (sampleInit 0) \<lparr> url = ''/created/broken'' \<rparr> 500 entryContext,
           [MatchRoutes (url \<lparr> url = ''/created/broken'' \<rparr>),
            LoadData ?ms
              (createLocation (parsePath sampleEnv) (url \<lparr> url = ''/created/broken'' \<rparr>) None None),
            GetPartialManifest [''__entry_browser__'', ''routes/500''],
            Render 500 entryContext])"
    and ids: "matchedRouteIds entryContext = [''routes/500'']"
    by blast
  have zero: "showNat 0 = ''0''"
    by (simp add: showNat.simps digitChar_def)
  show ?thesis
    using r by (simp add: h ids sampleRender_def zero)
qed

text \<open>
  C4, as the code has it. When the loader results of an HTML request hold no redirect and
  at least one error, the handler calls the render hook once, with the first error's status
  code. The matched route ids, the route manifest, the route params and the manifest slice
  of the entry context come from the synthetic \<open>routes/500\<close> match alone, but the route
  data is \<open>createRouteData\<close> of the whole list of loader results, the results of the
  sibling routes included: the handler does not drop them.
\<close>

theorem handleHtmlRequest_error_keeps_results:
  assumes matched: "matchRoutes E (routes (config init)) (url req) = Some matches"
    and loaded: "loadData E (config init) matches
                   (createLocation (parsePath E) (url req) None None) context
                 = before @ LoaderResultError err httpStatus # after"
    and no_redirect: "\<forall>r \<in> set (before @ LoaderResultError err httpStatus # after).
                        \<forall>l s. r \<noteq> LoaderResultRedirect l s"
    and first: "\<forall>r \<in> set before. \<forall>e s. r \<noteq> LoaderResultError e s"
  shows "\<exists>entryContext.
           handleHtmlRequest E init req context =
             (serverEntryModule init req httpStatus entryContext,
              [MatchRoutes (url req),
               LoadData matches (createLocation (parsePath E) (url req) None None),
               GetPartialManifest [''__entry_browser__'', ''routes/500''],
               Render httpStatus entryContext])
           \<and> matchedRouteIds entryContext = [''routes/500'']
           \<and> routeManifest entryContext =
               createRouteManifest E
                 [syntheticMatch (createLocation (parsePath E) (url req) None None) ''routes/500'']
           \<and> routeParams entryContext =
               createRouteParams E
                 [syntheticMatch (createLocation (parsePath E) (url req) None None) ''routes/500'']
           \<and> ctx_browserManifest entryContext =
               getPartialManifest (browserManifest init) [''__entry_browser__'', ''routes/500'']
           \<and> routeData entryContext =
               createRouteData E (before @ LoaderResultError err httpStatus # after)"
  using matched loaded findRedirect_none [OF no_redirect]
    findError_first [OF first, of err httpStatus after]
  by (simp add: handleHtmlRequest_def renderEntry_def syntheticMatch_def Let_def
        PartialEntryContext.extend_def EntryContext.fields_def)

theorem handleHtmlRequest_error_keeps_results_witness:
  "map matchedRouteIds
       (renderedContexts
          (snd (handleHtmlRequest sampleEnv (sampleInit 0) \<lparr> url = ''/broken'' \<rparr> JNull)))
     = [[''routes/500'']]
   \<and> map ctx_browserManifest
       (renderedContexts
          (snd (handleHtmlRequest sampleEnv (sampleInit 0) \<lparr> url = ''/broken'' \<rparr> JNull)))
     = [[(''__entry_browser__'', JStr ''entry-browser.0.js''), (''routes/500'', JUndefined)]]
   \<and> map routeData
       (renderedContexts
          (snd (handleHtmlRequest sampleEnv (sampleInit 0) \<lparr> url = ''/broken'' \<rparr> JNull)))
     = [sampleCreateRouteData
          [LoaderResultSuccess (JObj [(''user'', JStr ''alice'')]),
           LoaderResultError (JStr ''boom'') 500]]"
proof -
  let ?ms = "[sampleMatch ''/'' layoutRoute, sampleMatch ''/broken'' brokenRoute]"
  have m: "matchRoutes sampleEnv (routes (config (sampleInit 0))) (url \<lparr> url = ''/broken'' \<rparr>)
             = Some ?ms"
    by (simp add: sampleMatchRoutes_def)
  have l: "loadData sampleEnv (config (sampleInit 0)) ?ms
             (createLocation (parsePath sampleEnv) (url \<lparr> url = ''/broken'' \<rparr>) None None) JNull
           = [LoaderResultSuccess (JObj [(''user'', JStr ''alice'')])]
             @ LoaderResultError (JStr ''boom'') 500 # []"
    using sample_broken_results by simp
  have nr: "\<forall>r \<in> set ([LoaderResultSuccess (JObj [(''user'', JStr ''alice'')])]
                          @ LoaderResultError (JStr ''boom'') 500 # []).
              \<forall>l s. r \<noteq> LoaderResultRedirect l s"
    by simp
  have f: "\<forall>r \<in> set [LoaderResultSuccess (JObj [(''user'', JStr ''alice'')])].
             \<forall>e s. r \<noteq> LoaderResultError e s"
    by simp
  have c: "createRouteData sampleEnv = sampleCreateRouteData"
    by (simp add: sampleEnv_def)
  from handleHtmlRequest_error_keeps_results [OF m l nr f]
  obtain entryContext where
    h: "snd (handleHtmlRequest sampleEnv (sampleInit 0) \<lparr> url = ''/broken'' \<rparr> JNull) =
          [MatchRoutes (url \<lparr> url = ''/broken'' \<rparr>),
           LoadData ?ms
             (createLocation (parsePath sampleEnv) (url \<lparr> url = ''/broken'' \<rparr>) None None),
           GetPartialManifest [''__entry_browser__'', ''routes/500''],
           Render 500 entryContext]"
    and ids: "matchedRouteIds entryContext = [''routes/500'']"
    and slice: "ctx_browserManifest entryContext =
                  getPartialManifest (browserManifest (sampleInit 0))
                    [''__entry_browser__'', ''routes/500'']"
    and data: "routeData entryContext =
                 createRouteData sampleEnv
                   ([LoaderResultSuccess (JObj [(''user'', JStr ''alice'')])]
                    @ LoaderResultError (JStr ''boom'') 500 # [])"
    by fastforce
  show ?thesis
    by (simp add: h ids slice data c sample_slice_500)
qed

text \<open>
  C4 as stated says no success payload of a sibling route is in the entry context. In the
  sample, \<open>/broken\<close> matches the layout route, whose loader succeeds with the user, and a
  route whose loader fails. The entry context handed to the render hook names only
  \<open>routes/500\<close>, and its route data holds the layout route's payload.
\<close>

theorem handleHtmlRequest_error_drops_data_counterexample:
  "loadData sampleEnv (config (sampleInit 0))
     [sampleMatch ''/'' layoutRoute, sampleMatch ''/broken'' brokenRoute]
     (createLocation sampleParsePath ''/broken'' None None) JNull
     = [LoaderResultSuccess (JObj [(''user'', JStr ''alice'')]),
        LoaderResultError (JStr ''boom'') 500]
   \<and> map matchedRouteIds
         (renderedContexts
            (snd (handleHtmlRequest sampleEnv (sampleInit 0) \<lparr> url = ''/broken'' \<rparr> JNull)))
       = [[''routes/500'']]
   \<and> map routeData
         (renderedContexts
            (snd (handleHtmlRequest sampleEnv (sampleInit 0) \<lparr> url = ''/broken'' \<rparr> JNull)))
       = [JArr [JObj [(''user'', JStr ''alice'')],
                JObj [(''error'', JStr ''boom''), (''status'', JNum 500)]]]"
proof -
  have m: "sampleMatchRoutes sampleRoutes ''/broken''
             = Some [sampleMatch ''/'' layoutRoute, sampleMatch ''/broken'' brokenRoute]"
    by (simp add: sampleMatchRoutes_def)
  have c: "createRouteData sampleEnv = sampleCreateRouteData"
    by (simp add: sampleEnv_def)
  show ?thesis
    by (simp add: handleHtmlRequest_def renderEntry_def Let_def m c sampleCreateRouteData_def
          syntheticMatch_def PartialEntryContext.extend_def EntryContext.fields_def)
qed

text \<open>
  C5. When the URL of an HTML request matches no route, the handler runs no loader: it
  builds the entry context from a single synthetic \<open>routes/404\<close> match and an empty list
  of loader results, and calls the render hook with status code 404.
\<close>

theorem handleHtmlRequest_no_match:
  assumes "matchRoutes E (routes (config init)) (url req) = None"
  shows "\<exists>entryContext.
           handleHtmlRequest E init req context =
             (serverEntryModule init req 404 entryContext,
              [MatchRoutes (url req),
               GetPartialManifest [''__entry_browser__'', ''routes/404''],
               Render 404 entryContext])
           \<and> matchedRouteIds entryContext = [''routes/404'']
           \<and> routeManifest entryContext =
               createRouteManifest E
                 [syntheticMatch (createLocation (parsePath E) (url req) None None) ''routes/404'']
           \<and> routeParams entryContext =
               createRouteParams E
                 [syntheticMatch (createLocation (parsePath E) (url req) None None) ''routes/404'']
           \<and> routeData entryContext = createRouteData E []"
  using assms
  by (simp add: handleHtmlRequest_def renderEntry_def syntheticMatch_def Let_def
        PartialEntryContext.extend_def EntryContext.fields_def)

theorem handleHtmlRequest_no_match_witness:
  "handleHtmlRequest sampleEnv (sampleInit 0) \<lparr> url = ''/nowhere'' \<rparr> JNull
     = (\<lparr> body = ''build 0: routes/404'', status = Some 404,
           headers = [(''Content-Type'', ''text/html'')] \<rparr>,
        snd (handleHtmlRequest sampleEnv (sampleInit 0) \<lparr> url = ''/nowhere'' \<rparr> JNull))
   \<and> map (\<lambda>entryContext. (matchedRouteIds entryContext, routeData entryContext))
         (renderedContexts
            (snd (handleHtmlRequest sampleEnv (sampleInit 0) \<lparr> url = ''/nowhere'' \<rparr> JNull)))
       = [([''routes/404''], JArr [])]
   \<and> concat (map loadersInvoked
         (snd (handleHtmlRequest sampleEnv (sampleInit 0) \<lparr> url = ''/nowhere'' \<rparr> JNull))) = []"
proof -
  have m: "matchRoutes sampleEnv (routes (config (sampleInit 0))) (url \<lparr> url = ''/nowhere'' \<rparr>)
             = None"
    by (simp add: sampleMatchRoutes_def)
  have c: "createRouteData sampleEnv [] = JArr []"
    by (simp add: sampleEnv_def sampleCreateRouteData_def)
  from handleHtmlRequest_no_match [OF m, of JNull]
  obtain entryContext where
    h: "handleHtmlRequest sampleEnv (sampleInit 0) \<lparr> url = ''/nowhere'' \<rparr> JNull =
          (serverEntryModule (sampleInit 0) \<lparr> url = ''/nowhere'' \<rparr> 404 entryContext,
           [MatchRoutes (url \<lparr> url = ''/nowhere'' \<rparr>),
            GetPartialManifest [''__entry_browser__'', ''routes/404''],
            Render 404 entryContext])"
    and ids: "matchedRouteIds entryContext = [''routes/404'']"
    and data: "routeData entryContext = createRouteData sampleEnv []"
    by blast
  show ?thesis
    by (simp add: h ids data c sampleRender_def)
qed

subsection \<open>The data and patch endpoints\<close>

lemma missingPath_eq:
  "missingPath =
     \<lparr> body = ''{\"error\":\"Missing ?path\"}'',
       status = Some 403,
       headers = [(''Content-Type'', ''application/json'')] \<rparr>"
  by (simp add: missingPath_def quoteString_def escapeChar_def)

lemma dispatch_missing_path:
  assumes "startsWith (url req) ''/__remix_data'' \<or> startsWith (url req) ''/__remix_patch''"
    and "searchParam (URLSearchParams E (search (createLocation (parsePath E) (url req) None None)))
           ''path'' = None"
  shows "dispatch E init req loadContext = (missingPath, [])"
  using assms
  by (auto simp: dispatch_def handleDataRequest_def handlePatchRequest_def truthy_def Let_def)

text \<open>
  C6. A request whose URL starts with \<open>/__remix_data\<close> or \<open>/__remix_patch\<close> and whose query
  string has no \<open>path\<close> parameter is answered with status 403, the header
  \<open>Content-Type: application/json\<close> and the body \<open>{"error":"Missing ?path"}\<close>, in
  development mode or not, and the handler never calls the route matcher for it.
\<close>

theorem requestHandler_missing_path:
  assumes endpoint:
      "startsWith (url req) ''/__remix_data'' \<or> startsWith (url req) ''/__remix_patch''"
    and missing:
      "searchParam (URLSearchParams E (search (createLocation (parsePath E) (url req) None None)))
         ''path'' = None"
  shows "fst (fst (requestHandler E NODE_ENV remixRoot s req loadContext)) =
           \<lparr> body = ''{\"error\":\"Missing ?path\"}'',
             status = Some 403,
             headers = [(''Content-Type'', ''application/json'')] \<rparr>
         \<and> (\<forall>e \<in> set (snd (fst (requestHandler E NODE_ENV remixRoot s req loadContext))).
               \<forall>p. e \<noteq> MatchRoutes p)"
proof -
  have d: "dispatch E init req loadContext = (missingPath, [])" for init
    using endpoint missing by (rule dispatch_missing_path)
  show ?thesis
    unfolding requestHandler_def
    by (auto simp: d missingPath_eq Let_def split: InitPromise.splits)
qed

theorem requestHandler_missing_path_witness:
  "fst (requestHandler sampleEnv (Some ''development'') None sampleServer
          \<lparr> url = ''/__remix_data?from=/gists'' \<rparr> JNull)
     = (\<lparr> body = ''{\"error\":\"Missing ?path\"}'', status = Some 403,
           headers = [(''Content-Type'', ''application/json'')] \<rparr>,
        [AwaitInit 0, PurgeRequireCache ''/app'', InitializeServer None 1, AwaitInit 1])
   \<and> fst (requestHandler sampleEnv (Some ''production'') None sampleServer
            \<lparr> url = ''/__remix_patch'' \<rparr> JNull)
     = (\<lparr> body = ''{\"error\":\"Missing ?path\"}'', status = Some 403,
           headers = [(''Content-Type'', ''application/json'')] \<rparr>,
        [AwaitInit 0])"
proof -
  have e1: "startsWith (url \<lparr> url = ''/__remix_data?from=/gists'' \<rparr>) ''/__remix_data''
            \<or> startsWith (url \<lparr> url = ''/__remix_data?from=/gists'' \<rparr>) ''/__remix_patch''"
    by (simp add: startsWith_def)
  have p1: "searchParam (URLSearchParams sampleEnv (search (createLocation (parsePath sampleEnv)
              (url \<lparr> url = ''/__remix_data?from=/gists'' \<rparr>) None None))) ''path'' = None"
    by (simp add: sample_location_data sampleURLSearchParams_def searchParam_def)
  have e2: "startsWith (url \<lparr> url = ''/__remix_patch'' \<rparr>) ''/__remix_data''
            \<or> startsWith (url \<lparr> url = ''/__remix_patch'' \<rparr>) ''/__remix_patch''"
    by (simp add: startsWith_def)
  have p2: "searchParam (URLSearchParams sampleEnv (search (createLocation (parsePath sampleEnv)
              (url \<lparr> url = ''/__remix_patch'' \<rparr>) None None))) ''path'' = None"
    by (simp add: sample_location_patch sampleURLSearchParams_def searchParam_def)
  have t1: "snd (fst (requestHandler sampleEnv (Some ''development'') None sampleServer
                   \<lparr> url = ''/__remix_data?from=/gists'' \<rparr> JNull))
              = [AwaitInit 0, PurgeRequireCache ''/app'', InitializeServer None 1, AwaitInit 1]"
    using dispatch_missing_path [OF e1 p1]
    by (simp add: requestHandler_def sampleServer_def Let_def)
  have t2: "snd (fst (requestHandler sampleEnv (Some ''production'') None sampleServer
                   \<lparr> url = ''/__remix_patch'' \<rparr> JNull)) = [AwaitInit 0]"
    using dispatch_missing_path [OF e2 p2]
    by (simp add: requestHandler_def sampleServer_def Let_def)
  show ?thesis
    using requestHandler_missing_path [OF e1 p1, of "Some ''development''" None sampleServer JNull]
      requestHandler_missing_path [OF e2 p2, of "Some ''production''" None sampleServer JNull]
      t1 t2
    by (simp add: prod_eq_iff)
qed

text \<open>
  C7, as the code has it. When the \<open>path\<close> parameter of a patch request is there, is not
  empty and matches no route, the response has status 404 and the body
  \<open>No matches found for <path>\<close>, and the handler gives it no header: no content type is
  set.
\<close>

theorem handlePatchRequest_no_match:
  assumes "truthy (searchParam
             (URLSearchParams E (search (createLocation (parsePath E) (url req) None None)))
             ''path'') = Some p"
    and "matchRoutes E (routes (config init)) p = None"
  shows "handlePatchRequest E init req =
           (\<lparr> body = ''No matches found for '' @ p, status = Some 404, headers = [] \<rparr>,
            [MatchRoutes p])"
  using assms by (simp add: handlePatchRequest_def Let_def)

theorem handlePatchRequest_no_match_witness:
  "handlePatchRequest sampleEnv (sampleInit 0) \<lparr> url = ''/__remix_patch?path=/nowhere'' \<rparr>
     = (\<lparr> body = ''No matches found for /nowhere'', status = Some 404, headers = [] \<rparr>,
        [MatchRoutes ''/nowhere''])"
proof -
  have p: "truthy (searchParam (URLSearchParams sampleEnv (search (createLocation
             (parsePath sampleEnv) (url \<lparr> url = ''/__remix_patch?path=/nowhere'' \<rparr>) None None)))
             ''path'') = Some ''/nowhere''"
    by (simp add: sample_location_nowhere sample_params_nowhere searchParam_def truthy_def)
  have m: "matchRoutes sampleEnv (routes (config (sampleInit 0))) ''/nowhere'' = None"
    by (simp add: sampleMatchRoutes_def)
  show ?thesis
    using handlePatchRequest_no_match [OF p m] by simp
qed

text \<open>
  C7 as stated gives the response the content type \<open>text/plain\<close>. The response to
  \<open>/__remix_patch?path=/nowhere\<close> in the sample has no \<open>Content-Type\<close> header.
\<close>

theorem handlePatchRequest_content_type_counterexample:
  "\<not> (status (fst (handlePatchRequest sampleEnv (sampleInit 0)
                      \<lparr> url = ''/__remix_patch?path=/nowhere'' \<rparr>)) = Some 404
       \<and> map_of (headers (fst (handlePatchRequest sampleEnv (sampleInit 0)
                                 \<lparr> url = ''/__remix_patch?path=/nowhere'' \<rparr>)))
            ''Content-Type'' = Some ''text/plain''
       \<and> body (fst (handlePatchRequest sampleEnv (sampleInit 0)
                       \<lparr> url = ''/__remix_patch?path=/nowhere'' \<rparr>))
            = ''No matches found for /nowhere'')"
  by (simp add: handlePatchRequest_def Let_def sample_location_nowhere sample_params_nowhere
        searchParam_def truthy_def sampleMatchRoutes_def)

lemma invokedByDiff_empty: "invokedByDiff matches [] = filter hasLoader matches"
proof -
  have "map snd (filter (\<lambda>(i, m). hasLoader m) (enumerate n matches)) = filter hasLoader matches"
    for n
    by (induction matches arbitrary: n) simp_all
  then show ?thesis
    by (simp add: invokedByDiff_def foundAtSamePosition_def)
qed

text \<open>
  C10. In a data request whose \<open>path\<close> matches, a \<open>from\<close> parameter that is there (with a
  value that is not empty, which is what the test \<open>if (from)\<close> asks) and matches no route
  is no failure: the handler matches it, takes the empty list for the previous matches and
  runs \<open>loadDataDiff\<close> against it, and answers with the JSON of those results and no 404.
  By the spec's account of the diff strategy, the loaders that call invokes are those of
  every route matched by \<open>path\<close> that has a loader.
\<close>

theorem handleDataRequest_from_miss:
  assumes has_path: "truthy (searchParam
                   (URLSearchParams E (search (createLocation (parsePath E) (url req) None None)))
                   ''path'') = Some p"
    and matched: "matchRoutes E (routes (config init)) p = Some matches"
    and has_from: "truthy (searchParam
                   (URLSearchParams E (search (createLocation (parsePath E) (url req) None None)))
                   ''from'') = Some f"
    and miss: "matchRoutes E (routes (config init)) f = None"
  shows "handleDataRequest E init req context =
           (\<lparr> body = JSON_stringify
                       (createRouteDataResults E
                          (loadDataDiff E (config init) matches []
                             (createLocation (parsePath E) (url req) None None) context)),
              status = None,
              headers = [(''Content-Type'', ''application/json'')] \<rparr>,
            [MatchRoutes p, MatchRoutes f,
             LoadDataDiff matches [] (createLocation (parsePath E) (url req) None None)])
         \<and> concat (map loadersInvoked (snd (handleDataRequest E init req context)))
             = filter hasLoader matches"
  using assms by (simp add: handleDataRequest_def Let_def invokedByDiff_empty)

theorem handleDataRequest_from_miss_witness:
  "handleDataRequest sampleEnv (sampleInit 0)
     \<lparr> url = ''/__remix_data?path=/gists&from=/zzz'' \<rparr> JNull
     = (\<lparr> body = ''[{\"user\":\"alice\"},[\"gist-1\"]]'',
           status = None,
           headers = [(''Content-Type'', ''application/json'')] \<rparr>,
        [MatchRoutes ''/gists'', MatchRoutes ''/zzz'',
         LoadDataDiff [sampleMatch ''/'' layoutRoute, sampleMatch ''/gists'' gistsRoute] []
           (createLocation sampleParsePath ''/__remix_data?path=/gists&from=/zzz'' None None)])
   \<and> concat (map loadersInvoked
         (snd (handleDataRequest sampleEnv (sampleInit 0)
                 \<lparr> url = ''/__remix_data?path=/gists&from=/zzz'' \<rparr> JNull)))
       = [sampleMatch ''/'' layoutRoute, sampleMatch ''/gists'' gistsRoute]"
proof -
  let ?req = "\<lparr> url = ''/__remix_data?path=/gists&from=/zzz'' \<rparr>"
  let ?ms = "[sampleMatch ''/'' layoutRoute, sampleMatch ''/gists'' gistsRoute]"
  have p: "truthy (searchParam (URLSearchParams sampleEnv (search (createLocation
             (parsePath sampleEnv) (url ?req) None None))) ''path'') = Some ''/gists''"
    by (simp add: sample_location_diff sample_params_diff searchParam_def truthy_def)
  have f: "truthy (searchParam (URLSearchParams sampleEnv (search (createLocation
             (parsePath sampleEnv) (url ?req) None None))) ''from'') = Some ''/zzz''"
    by (simp add: sample_location_diff sample_params_diff searchParam_def truthy_def)
  have m: "matchRoutes sampleEnv (routes (config (sampleInit 0))) ''/gists'' = Some ?ms"
    by (simp add: sampleMatchRoutes_def)
  have n: "matchRoutes sampleEnv (routes (config (sampleInit 0))) ''/zzz'' = None"
    by (simp add: sampleMatchRoutes_def)
  have d: "loadDataDiff sampleEnv cfg ?ms [] loc ctx
             = [LoaderResultSuccess (JObj [(''user'', JStr ''alice'')]),
                LoaderResultSuccess (JArr [JStr ''gist-1''])]" for cfg loc ctx
    by (simp add: sampleEnv_def sampleLoadDataDiff_def foundAtSamePosition_def)
  have c: "createRouteDataResults sampleEnv = sampleCreateRouteData"
    by (simp add: sampleEnv_def)
  have l: "hasLoader (sampleMatch ''/'' layoutRoute)" "hasLoader (sampleMatch ''/gists'' gistsRoute)"
    by (simp_all add: hasLoader_def sampleMatch_def layoutRoute_def gistsRoute_def sampleRoute_def)
  show ?thesis
    using handleDataRequest_from_miss [OF p m f n, of JNull]
    by (simp add: d c l invokedByDiff_empty sampleCreateRouteData_def quoteString_def
          escapeChar_def)
qed

end
